theory Spec2Isabelle
  imports Complex_Main "HOL-Library.AList" "HOL-Library.Char_ord" "HOL-Library.List_Lexorder"
begin

section \<open>JavaScript values\<close>

text \<open>
  The server (the Hono application) keeps every entity as an untyped
  JSON object in a key-value store and reads the request bodies as \<^verbatim>\<open>any\<close>. The values
  are therefore modelled as JavaScript values, with the coercions the handlers rely on
  (\<^verbatim>\<open>||\<close>, \<^verbatim>\<open>>=\<close>, \<^verbatim>\<open><\<close>, template literals) written out.

  Numbers are exact rationals together with \<^verbatim>\<open>NaN\<close> and the two infinities: there is
  no rounding and no negative zero. Strings are lists of 8-bit characters compared by
  character code, which is JavaScript's comparison of code units for ASCII text.
\<close>

datatype jsnum = NaN | Fin rat | PosInf | NegInf

datatype jsval =
    JUndefined
  | JNull
  | JBool bool
  | JNum jsnum
  | JStr string
  | JArr "jsval list"
  | JObj "(string \<times> jsval) list"

text \<open>
  An object is the list of its properties in insertion order, each key once; so is the
  key-value store further down.
\<close>

type_synonym jsobj = "(string \<times> jsval) list"

abbreviation num :: "rat \<Rightarrow> jsval" where
  "num r \<equiv> JNum (Fin r)"

text \<open>\<^verbatim>\<open>o.k\<close> on an object: the property, or \<^verbatim>\<open>undefined\<close> when it is absent.\<close>

definition getProp :: "jsobj \<Rightarrow> string \<Rightarrow> jsval" where
  "getProp obj k = (case map_of obj k of None \<Rightarrow> JUndefined | Some v \<Rightarrow> v)"

text \<open>ToBoolean.\<close>

fun truthy :: "jsval \<Rightarrow> bool" where
  "truthy JUndefined = False"
| "truthy JNull = False"
| "truthy (JBool b) = b"
| "truthy (JNum NaN) = False"
| "truthy (JNum (Fin r)) = (r \<noteq> 0)"
| "truthy (JNum PosInf) = True"
| "truthy (JNum NegInf) = True"
| "truthy (JStr s) = (s \<noteq> [])"
| "truthy (JArr xs) = True"
| "truthy (JObj obj) = True"

text \<open>\<^verbatim>\<open>a || b\<close> and \<^verbatim>\<open>a ?? b\<close>.\<close>

definition jsOr :: "jsval \<Rightarrow> jsval \<Rightarrow> jsval" where
  "jsOr a b = (if truthy a then a else b)"

definition nullish :: "jsval \<Rightarrow> jsval \<Rightarrow> jsval" where
  "nullish a b = (if a = JUndefined \<or> a = JNull then b else a)"

subsection \<open>Numbers and strings\<close>

definition isDigit :: "char \<Rightarrow> bool" where
  "isDigit c = (CHR ''0'' \<le> c \<and> c \<le> CHR ''9'')"

definition digitChar :: "nat \<Rightarrow> char" where
  "digitChar d =
     (if d = 0 then CHR ''0'' else if d = 1 then CHR ''1'' else if d = 2 then CHR ''2''
      else if d = 3 then CHR ''3'' else if d = 4 then CHR ''4'' else if d = 5 then CHR ''5''
      else if d = 6 then CHR ''6'' else if d = 7 then CHR ''7'' else if d = 8 then CHR ''8''
      else CHR ''9'')"

definition digitVal :: "char \<Rightarrow> nat" where
  "digitVal c = of_char c - 48"

text \<open>The decimal digits of a number that is not negative, most significant first.\<close>

function digitsOf :: "int \<Rightarrow> string" where
  "digitsOf n =
     (if n < 10 then [digitChar (nat n)]
      else digitsOf (n div 10) @ [digitChar (nat (n mod 10))])"
  by pat_completeness auto
termination
  by (relation "measure nat") auto

declare digitsOf.simps [simp del]

definition natToString :: "nat \<Rightarrow> string" where
  "natToString n = digitsOf (int n)"

definition natOfDigits :: "string \<Rightarrow> nat" where
  "natOfDigits s = foldl (\<lambda>a c. 10 * a + digitVal c) 0 s"

text \<open>
  The digits after the decimal point of \<open>p / q\<close> (for \<open>0 \<le> p < q\<close>), at most
  \<open>fuel\<close> of them.
\<close>

fun fracDigits :: "nat \<Rightarrow> int \<Rightarrow> int \<Rightarrow> string" where
  "fracDigits 0 p q = []"
| "fracDigits (Suc fuel) p q =
     (if p = 0 then []
      else digitChar (nat (10 * p div q)) # fracDigits fuel (10 * p mod q) q)"

text \<open>
  Number::toString. Integers print as their decimal digits, which is what JavaScript
  prints below \<open>10\<^sup>2\<^sup>1\<close>; a number that is not an integer prints its decimal expansion,
  cut after 17 digits (the handlers never interpolate such a number on a store they wrote).
\<close>

definition ratToString :: "rat \<Rightarrow> string" where
  "ratToString r =
     (let (p, q) = quotient_of \<bar>r\<bar>;
          ip = p div q;
          fp = p mod q
      in (if r < 0 then ''-'' else []) @ digitsOf ip @
         (if fp = 0 then [] else ''.'' @ fracDigits 17 fp q))"

fun numToString :: "jsnum \<Rightarrow> string" where
  "numToString NaN = ''NaN''"
| "numToString (Fin r) = ratToString r"
| "numToString PosInf = ''Infinity''"
| "numToString NegInf = ''-Infinity''"

fun joinWith :: "string \<Rightarrow> string list \<Rightarrow> string" where
  "joinWith sep [] = []"
| "joinWith sep [x] = x"
| "joinWith sep (x # y # ys) = x @ sep @ joinWith sep (y # ys)"

text \<open>ToString, as a template literal applies it.\<close>

fun toString :: "jsval \<Rightarrow> string" where
  "toString JUndefined = ''undefined''"
| "toString JNull = ''null''"
| "toString (JBool b) = (if b then ''true'' else ''false'')"
| "toString (JNum n) = numToString n"
| "toString (JStr s) = s"
| "toString (JArr xs) =
     joinWith '','' (map (\<lambda>v. if v = JUndefined \<or> v = JNull then [] else toString v) xs)"
| "toString (JObj obj) = ''[object Object]''"

subsection \<open>ToNumber and the relational operators\<close>

definition isWhiteSpace :: "char \<Rightarrow> bool" where
  "isWhiteSpace c = ((of_char c :: nat) \<in> {9, 10, 11, 12, 13, 32, 160})"

definition trim :: "string \<Rightarrow> string" where
  "trim s = rev (dropWhile isWhiteSpace (rev (dropWhile isWhiteSpace s)))"

definition allDigits :: "string \<Rightarrow> bool" where
  "allDigits s = (s \<noteq> [] \<and> list_all isDigit s)"

text \<open>The SignedInteger of an exponent part.\<close>

definition signedInteger :: "string \<Rightarrow> int option" where
  "signedInteger s =
     (case s of
        [] \<Rightarrow> None
      | c # t \<Rightarrow>
          if c = CHR ''+'' then (if allDigits t then Some (int (natOfDigits t)) else None)
          else if c = CHR ''-'' then (if allDigits t then Some (- int (natOfDigits t)) else None)
          else if allDigits s then Some (int (natOfDigits s)) else None)"

definition pow10 :: "int \<Rightarrow> rat" where
  "pow10 e = (if 0 \<le> e then 10 ^ nat e else 1 / 10 ^ nat (- e))"

text \<open>
  StrUnsignedDecimalLiteral: \<^verbatim>\<open>Infinity\<close>, or digits with an optional fraction and an
  optional exponent, at least one digit before or after the point.
\<close>

definition unsignedDecimal :: "string \<Rightarrow> jsnum" where
  "unsignedDecimal s =
     (if s = ''Infinity'' then PosInf
      else
        let ip = takeWhile isDigit s;
            r1 = dropWhile isDigit s;
            hasDot = (r1 \<noteq> [] \<and> hd r1 = CHR ''.'');
            fp = (if hasDot then takeWhile isDigit (tl r1) else []);
            r2 = (if hasDot then dropWhile isDigit (tl r1) else r1);
            m = (of_nat (natOfDigits ip) + of_nat (natOfDigits fp) / 10 ^ length fp :: rat)
        in if ip = [] \<and> fp = [] then NaN
           else if r2 = [] then Fin m
           else if hd r2 = CHR ''e'' \<or> hd r2 = CHR ''E'' then
             (case signedInteger (tl r2) of None \<Rightarrow> NaN | Some e \<Rightarrow> Fin (m * pow10 e))
           else NaN)"

definition digitInBase :: "nat \<Rightarrow> char \<Rightarrow> nat option" where
  "digitInBase b c =
     (let n = (of_char c :: nat);
          v = (if 48 \<le> n \<and> n \<le> 57 then n - 48
               else if 97 \<le> n \<and> n \<le> 102 then n - 87
               else if 65 \<le> n \<and> n \<le> 70 then n - 55
               else b)
      in if v < b then Some v else None)"

fun digitsInBase :: "nat \<Rightarrow> nat \<Rightarrow> string \<Rightarrow> nat option" where
  "digitsInBase b acc [] = Some acc"
| "digitsInBase b acc (c # cs) =
     (case digitInBase b c of None \<Rightarrow> None | Some v \<Rightarrow> digitsInBase b (b * acc + v) cs)"

text \<open>
  NonDecimalIntegerLiteral (\<^verbatim>\<open>0x\<close>, \<^verbatim>\<open>0o\<close>, \<^verbatim>\<open>0b\<close>): \<open>None\<close> when the string has no
  such prefix.
\<close>

definition nonDecimal :: "string \<Rightarrow> jsnum option" where
  "nonDecimal s =
     (case s of
        z # p # ds \<Rightarrow>
          (let b = (if p = CHR ''x'' \<or> p = CHR ''X'' then 16
                    else if p = CHR ''o'' \<or> p = CHR ''O'' then 8
                    else if p = CHR ''b'' \<or> p = CHR ''B'' then 2 else (0::nat))
           in if z = CHR ''0'' \<and> b \<noteq> 0 then
                Some (if ds = [] then NaN
                      else case digitsInBase b 0 ds of None \<Rightarrow> NaN | Some n \<Rightarrow> Fin (of_nat n))
              else None)
      | _ \<Rightarrow> None)"

fun negate :: "jsnum \<Rightarrow> jsnum" where
  "negate NaN = NaN"
| "negate (Fin r) = Fin (- r)"
| "negate PosInf = NegInf"
| "negate NegInf = PosInf"

text \<open>
  StringToNumber: the empty or blank string is 0, a string that is no numeric literal is
  NaN. The value of a literal is its exact rational value: the rounding of
  \<^verbatim>\<open>Number()\<close> to the nearest double is not modelled, so a digit string that is not a
  double (\<^verbatim>\<open>"79.99999999999999999"\<close>) keeps its own value here and is 80 in the code.
\<close>

definition stringToNumber :: "string \<Rightarrow> jsnum" where
  "stringToNumber s =
     (let t = trim s
      in case t of
           [] \<Rightarrow> Fin 0
         | c # r \<Rightarrow>
             (case nonDecimal t of
                Some n \<Rightarrow> n
              | None \<Rightarrow>
                  if c = CHR ''+'' then unsignedDecimal r
                  else if c = CHR ''-'' then negate (unsignedDecimal r)
                  else unsignedDecimal t))"

fun toNumber :: "jsval \<Rightarrow> jsnum" where
  "toNumber JUndefined = NaN"
| "toNumber JNull = Fin 0"
| "toNumber (JBool b) = Fin (if b then 1 else 0)"
| "toNumber (JNum n) = n"
| "toNumber (JStr s) = stringToNumber s"
| "toNumber (JArr xs) = stringToNumber (toString (JArr xs))"
| "toNumber (JObj obj) = NaN"

text \<open>\<^verbatim>\<open>x < y\<close> on numbers: false as soon as one side is NaN.\<close>

fun numLess :: "jsnum \<Rightarrow> jsnum \<Rightarrow> bool" where
  "numLess NaN y = False"
| "numLess x NaN = False"
| "numLess PosInf y = False"
| "numLess x NegInf = False"
| "numLess NegInf y = True"
| "numLess x PosInf = True"
| "numLess (Fin a) (Fin b) = (a < b)"

text \<open>\<^verbatim>\<open>x >= y\<close> is \<^verbatim>\<open>!(x < y)\<close> unless one side is NaN, where it is false too.\<close>

definition numGreaterEq :: "jsnum \<Rightarrow> jsnum \<Rightarrow> bool" where
  "numGreaterEq x y = (x \<noteq> NaN \<and> y \<noteq> NaN \<and> \<not> numLess x y)"

text \<open>
  \<^verbatim>\<open>v < k\<close> and \<^verbatim>\<open>v >= k\<close> against a number literal \<open>k\<close>: the right operand is a
  number, so the left one is converted by ToNumber whatever it is.
\<close>

definition jsLess :: "jsval \<Rightarrow> rat \<Rightarrow> bool" where
  "jsLess v k = numLess (toNumber v) (Fin k)"

definition jsGreaterEq :: "jsval \<Rightarrow> rat \<Rightarrow> bool" where
  "jsGreaterEq v k = numGreaterEq (toNumber v) (Fin k)"

section \<open>Mastery level\<close>

text \<open>
  \<^verbatim>\<open>function calculateMasteryLevel(progress: any, day: number, score: number)\<close>.
  The caller passes \<^verbatim>\<open>revision.revision_day\<close>, read from an untyped object, so \<open>day\<close>
  is any value here; \<^verbatim>\<open>day === 7\<close> is equality with the number 7. The parameter
  \<open>score\<close> is not read.
\<close>

definition calculateMasteryLevel :: "jsobj \<Rightarrow> jsval \<Rightarrow> jsval \<Rightarrow> string" where
  "calculateMasteryLevel progress day score =
     (let day1 = jsOr (getProp progress ''day1_score'') (num 0);
          day3 = jsOr (getProp progress ''day3_score'') (num 0);
          day7 = jsOr (getProp progress ''day7_score'') (num 0)
      in if day = num 7 \<and> jsGreaterEq day7 80 then ''mastered''
         else if jsGreaterEq day 3 \<and> jsGreaterEq day3 70 \<and> jsGreaterEq day1 60 then ''improving''
         else if day = num 1 \<and> jsGreaterEq day1 60 then ''learning''
         else ''weak'')"

text \<open>
  The classification as the specification words it (\<open>computeMasteryLevel\<close>): the stored
  day scores are read with \<^verbatim>\<open>?? 0\<close>, so only a missing (or null) score defaults to 0,
  and are compared as numbers with the literal thresholds 80, 70 and 60.
\<close>

definition dayScore :: "jsobj \<Rightarrow> string \<Rightarrow> jsnum" where
  "dayScore existingProgress k = toNumber (nullish (getProp existingProgress k) (num 0))"

definition computeMasteryLevel_spec :: "jsobj \<Rightarrow> jsval \<Rightarrow> string" where
  "computeMasteryLevel_spec existingProgress revisionDayJustCompleted =
     (let day1 = dayScore existingProgress ''day1_score'';
          day3 = dayScore existingProgress ''day3_score'';
          day7 = dayScore existingProgress ''day7_score''
      in if revisionDayJustCompleted = num 7 \<and> numGreaterEq day7 (Fin 80) then ''mastered''
         else if jsGreaterEq revisionDayJustCompleted 3 \<and> numGreaterEq day3 (Fin 70)
                 \<and> numGreaterEq day1 (Fin 60) then ''improving''
         else if revisionDayJustCompleted = num 1 \<and> numGreaterEq day1 (Fin 60) then ''learning''
         else ''weak'')"

section \<open>Objects and the key-value store\<close>

text \<open>
  An object literal \<^verbatim>\<open>{...base, k1: v1, k2: v2}\<close> copies \<open>base\<close> and then defines the
  listed properties from left to right: a key that is already there keeps its place and
  takes the new value, a new key is added at the end.
\<close>

definition assign :: "jsobj \<Rightarrow> (string \<times> jsval) list \<Rightarrow> jsobj" where
  "assign base fields = foldl (\<lambda>obj (k, v). AList.update k v obj) base fields"

text \<open>
  Modelled from the spec: the module \<^verbatim>\<open>kv_store.tsx\<close> that the server imports as \<open>kv\<close>
  is not among the sources. The specification gives its interface: \<^verbatim>\<open>get(key)\<close> is the
  value under the key or null, \<^verbatim>\<open>set(key, value)\<close> stores the value under the key,
  \<^verbatim>\<open>getByPrefix(prefix)\<close> is the list of the values whose key starts with the prefix, in
  insertion order. The store is the list of its entries in insertion order; every value
  the server stores is an object. Storage failures are not modelled.
\<close>

type_synonym kvstore = "(string \<times> jsobj) list"

definition kv_get :: "kvstore \<Rightarrow> string \<Rightarrow> jsobj option" where
  "kv_get st key = map_of st key"

definition kv_set :: "kvstore \<Rightarrow> string \<Rightarrow> jsobj \<Rightarrow> kvstore" where
  "kv_set st key v = AList.update key v st"

definition kv_getByPrefix :: "kvstore \<Rightarrow> string \<Rightarrow> jsobj list" where
  "kv_getByPrefix st p = map snd (filter (\<lambda>(k, v). take (length p) k = p) st)"

section \<open>Dates\<close>

text \<open>
  A \<^verbatim>\<open>Date\<close> is its time value, the milliseconds since the epoch in UTC, and the
  functions below are those of the ECMAScript specification under their names there. The
  clock (\<^verbatim>\<open>new Date()\<close>, \<^verbatim>\<open>Date.now()\<close>) is an input of each handler: one time value
  for each time the handler reads it.
\<close>

definition msPerDay :: int where
  "msPerDay = 86400000"

definition Day :: "int \<Rightarrow> int" where
  "Day t = t div msPerDay"

definition TimeWithinDay :: "int \<Rightarrow> int" where
  "TimeWithinDay t = t mod msPerDay"

definition DaysInYear :: "int \<Rightarrow> int" where
  "DaysInYear y =
     (if y mod 4 \<noteq> 0 then 365 else if y mod 100 \<noteq> 0 then 366
      else if y mod 400 \<noteq> 0 then 365 else 366)"

definition DayFromYear :: "int \<Rightarrow> int" where
  "DayFromYear y =
     365 * (y - 1970) + (y - 1969) div 4 - (y - 1901) div 100 + (y - 1601) div 400"

text \<open>
  The year of a day number: the largest \<open>y\<close> with \<open>DayFromYear y \<le> d\<close>
  (\<open>YearFromDay_bracket\<close> below), computed from the mean length of a year and corrected
  by at most one.
\<close>

definition YearFromDay :: "int \<Rightarrow> int" where
  "YearFromDay d =
     (let y = 1970 + (400 * d) div 146097
      in if DayFromYear (y + 1) \<le> d then y + 1 else if d < DayFromYear y then y - 1 else y)"

definition YearFromTime :: "int \<Rightarrow> int" where
  "YearFromTime t = YearFromDay (Day t)"

definition InLeapYear :: "int \<Rightarrow> int" where
  "InLeapYear t = (if DaysInYear (YearFromTime t) = 366 then 1 else 0)"

definition DayWithinYear :: "int \<Rightarrow> int" where
  "DayWithinYear t = Day t - DayFromYear (YearFromTime t)"

text \<open>Months are numbered from 0 (January) to 11.\<close>

definition MonthFromTime :: "int \<Rightarrow> int" where
  "MonthFromTime t =
     (let d = DayWithinYear t; l = InLeapYear t
      in if d < 31 then 0
         else if d < 59 + l then 1
         else if d < 90 + l then 2
         else if d < 120 + l then 3
         else if d < 151 + l then 4
         else if d < 181 + l then 5
         else if d < 212 + l then 6
         else if d < 243 + l then 7
         else if d < 273 + l then 8
         else if d < 304 + l then 9
         else if d < 334 + l then 10
         else 11)"

definition DateFromTime :: "int \<Rightarrow> int" where
  "DateFromTime t =
     (let d = DayWithinYear t; l = InLeapYear t; m = MonthFromTime t
      in if m = 0 then d + 1
         else if m = 1 then d - 30
         else if m = 2 then d - 58 - l
         else if m = 3 then d - 89 - l
         else if m = 4 then d - 119 - l
         else if m = 5 then d - 150 - l
         else if m = 6 then d - 180 - l
         else if m = 7 then d - 211 - l
         else if m = 8 then d - 242 - l
         else if m = 9 then d - 272 - l
         else if m = 10 then d - 303 - l
         else d - 333 - l)"

definition HourFromTime :: "int \<Rightarrow> int" where
  "HourFromTime t = (t div 3600000) mod 24"

definition MinFromTime :: "int \<Rightarrow> int" where
  "MinFromTime t = (t div 60000) mod 60"

definition SecFromTime :: "int \<Rightarrow> int" where
  "SecFromTime t = (t div 1000) mod 60"

definition msFromTime :: "int \<Rightarrow> int" where
  "msFromTime t = t mod 1000"

text \<open>
  \<open>MakeDay year month date\<close>: the day number of the first day of the month (the month
  may lie outside 0..11 and then carries into the year), plus \<open>date - 1\<close>. The first
  day of a month is the first day of its year plus the days of the months before it.
\<close>

definition monthOffset :: "int \<Rightarrow> int \<Rightarrow> int" where
  "monthOffset mn l =
     (if mn = 0 then 0
      else if mn = 1 then 31
      else if mn = 2 then 59 + l
      else if mn = 3 then 90 + l
      else if mn = 4 then 120 + l
      else if mn = 5 then 151 + l
      else if mn = 6 then 181 + l
      else if mn = 7 then 212 + l
      else if mn = 8 then 243 + l
      else if mn = 9 then 273 + l
      else if mn = 10 then 304 + l
      else 334 + l)"

definition firstDayOfMonth :: "int \<Rightarrow> int \<Rightarrow> int" where
  "firstDayOfMonth ym mn =
     DayFromYear ym + monthOffset mn (if DaysInYear ym = 366 then 1 else 0)"

definition MakeDay :: "int \<Rightarrow> int \<Rightarrow> int \<Rightarrow> int" where
  "MakeDay year month date =
     (let ym = year + month div 12; mn = month mod 12
      in firstDayOfMonth ym mn + date - 1)"

definition MakeDate :: "int \<Rightarrow> int \<Rightarrow> int" where
  "MakeDate day time = day * msPerDay + time"

text \<open>A time value outside the range of \<^verbatim>\<open>Date\<close> makes the date invalid (\<open>None\<close>).\<close>

definition TimeClip :: "int \<Rightarrow> int option" where
  "TimeClip t = (if \<bar>t\<bar> \<le> 8640000000000000 then Some t else None)"

text \<open>
  The local time zone of the runtime is the function \<^verbatim>\<open>LocalTZA(t, isUTC)\<close> of the ECMAScript
  specification: the offset of local time from UTC in milliseconds, at the UTC time value
  \<open>t\<close> when \<open>isUTC\<close> is true and at the local time value \<open>t\<close> when it is false. It
  is an input of the handlers, since the source does not fix the zone; the offset changes
  with \<open>t\<close> where the zone has daylight saving time. \<^verbatim>\<open>LocalTime(t)\<close> is
  \<^verbatim>\<open>t + LocalTZA(t, true)\<close> and \<^verbatim>\<open>UTC(t)\<close> is \<^verbatim>\<open>t - LocalTZA(t, false)\<close>.
\<close>

type_synonym localTZA = "int \<Rightarrow> bool \<Rightarrow> int"

definition LocalTime :: "localTZA \<Rightarrow> int \<Rightarrow> int" where
  "LocalTime tza t = t + tza t True"

definition UTC :: "localTZA \<Rightarrow> int \<Rightarrow> int" where
  "UTC tza t = t - tza t False"

text \<open>\<^verbatim>\<open>d.getDate()\<close> and the time value \<^verbatim>\<open>d.setDate(dt)\<close> leaves in \<open>d\<close>.\<close>

definition getDate :: "localTZA \<Rightarrow> int \<Rightarrow> int" where
  "getDate tza t = DateFromTime (LocalTime tza t)"

definition setDate :: "localTZA \<Rightarrow> int \<Rightarrow> int \<Rightarrow> int option" where
  "setDate tza t dt =
     (let lt = LocalTime tza t;
          newDate = MakeDate (MakeDay (YearFromTime lt) (MonthFromTime lt) dt) (TimeWithinDay lt)
      in TimeClip (UTC tza newDate))"

text \<open>
  \<^verbatim>\<open>d.toISOString()\<close> of a valid date: \<^verbatim>\<open>YYYY-MM-DDTHH:mm:ss.sssZ\<close> in UTC, the year
  with four digits from 0 to 9999 and with a sign and six digits otherwise.
\<close>

definition pad2 :: "nat \<Rightarrow> string" where
  "pad2 n = [digitChar (n div 10 mod 10), digitChar (n mod 10)]"

definition pad3 :: "nat \<Rightarrow> string" where
  "pad3 n = [digitChar (n div 100 mod 10), digitChar (n div 10 mod 10), digitChar (n mod 10)]"

definition pad4 :: "nat \<Rightarrow> string" where
  "pad4 n = digitChar (n div 1000 mod 10) # pad3 n"

definition pad6 :: "nat \<Rightarrow> string" where
  "pad6 n = [digitChar (n div 100000 mod 10), digitChar (n div 10000 mod 10)] @ pad4 n"

definition isoYear :: "int \<Rightarrow> string" where
  "isoYear y =
     (if 0 \<le> y \<and> y \<le> 9999 then pad4 (nat y)
      else (if y < 0 then ''-'' else ''+'') @ pad6 (nat \<bar>y\<bar>))"

definition isoDate :: "int \<Rightarrow> string" where
  "isoDate t =
     isoYear (YearFromTime t) @ ''-'' @ pad2 (nat (MonthFromTime t + 1)) @ ''-''
       @ pad2 (nat (DateFromTime t))"

definition toISOString :: "int \<Rightarrow> string" where
  "toISOString t =
     isoDate t @ ''T'' @ pad2 (nat (HourFromTime t)) @ '':'' @ pad2 (nat (MinFromTime t))
       @ '':'' @ pad2 (nat (SecFromTime t)) @ ''.'' @ pad3 (nat (msFromTime t)) @ ''Z''"

text \<open>\<^verbatim>\<open>s.split('T')[0]\<close>: the part of the string before the first \<open>T\<close>.\<close>

definition splitT0 :: "string \<Rightarrow> string" where
  "splitT0 s = takeWhile (\<lambda>c. c \<noteq> CHR ''T'') s"

section \<open>Requests\<close>

text \<open>
  A handler answers with a JSON body or with an error: 401 when the request carries no
  valid token, 404 from its own check, 500 from its \<^verbatim>\<open>catch\<close> block. It also leaves a
  store behind, which after an error is the store as far as the handler had written it.
\<close>

datatype error = Unauthorized | NotFound | InternalError

type_synonym response = "error + jsobj"

text \<open>\<^verbatim>\<open>s.split(c)\<close> for a separator of one character.\<close>

fun splitOn :: "char \<Rightarrow> string \<Rightarrow> string list" where
  "splitOn c [] = [[]]"
| "splitOn c (x # xs) =
     (if x = c then [] # splitOn c xs
      else case splitOn c xs of [] \<Rightarrow> [[x]] | w # ws \<Rightarrow> (x # w) # ws)"

text \<open>
  \<^verbatim>\<open>c.req.header('Authorization')?.split(' ')[1]\<close>, \<open>None\<close> for \<^verbatim>\<open>undefined\<close>.
\<close>

definition accessToken :: "string option \<Rightarrow> string option" where
  "accessToken header =
     (case header of
        None \<Rightarrow> None
      | Some h \<Rightarrow> (case splitOn CHR '' '' h of a # b # rest \<Rightarrow> Some b | _ \<Rightarrow> None))"

text \<open>
  The first lines of every handler: no token, or an empty one, is refused; otherwise the
  identity service decides. \<open>getUser\<close> stands for \<^verbatim>\<open>supabase.auth.getUser\<close> and gives
  the id of the user of a token, \<open>None\<close> when it reports an error or no user.
\<close>

definition authenticate :: "(string \<Rightarrow> string option) \<Rightarrow> string option \<Rightarrow> string option" where
  "authenticate getUser header =
     (case accessToken header of
        None \<Rightarrow> None
      | Some token \<Rightarrow> if token = [] then None else getUser token)"

record request =
  authorization :: "string option"

section \<open>Submitting a diagnostic\<close>

text \<open>
  \<^verbatim>\<open>answers[index]\<close> and \<^verbatim>\<open>q.correctAnswer\<close>: reading a property of \<^verbatim>\<open>undefined\<close> or
  \<^verbatim>\<open>null\<close> throws a TypeError (\<open>None\<close>).
\<close>

fun elementAt :: "jsval \<Rightarrow> nat \<Rightarrow> jsval option" where
  "elementAt JUndefined i = None"
| "elementAt JNull i = None"
| "elementAt (JArr xs) i = Some (if i < length xs then xs ! i else JUndefined)"
| "elementAt (JStr s) i = Some (if i < length s then JStr [s ! i] else JUndefined)"
| "elementAt (JObj obj) i = Some (getProp obj (natToString i))"
| "elementAt (JBool b) i = Some JUndefined"
| "elementAt (JNum n) i = Some JUndefined"

fun correctAnswerOf :: "jsval \<Rightarrow> jsval option" where
  "correctAnswerOf JUndefined = None"
| "correctAnswerOf JNull = None"
| "correctAnswerOf (JObj obj) = Some (getProp obj ''correctAnswer'')"
| "correctAnswerOf (JBool b) = Some JUndefined"
| "correctAnswerOf (JNum n) = Some JUndefined"
| "correctAnswerOf (JStr s) = Some JUndefined"
| "correctAnswerOf (JArr xs) = Some JUndefined"

text \<open>
  \<^verbatim>\<open>a === b\<close> between a value of the request and a value of the store: two objects or
  arrays are never the same object.
\<close>

fun strictEq :: "jsval \<Rightarrow> jsval \<Rightarrow> bool" where
  "strictEq JUndefined JUndefined = True"
| "strictEq JNull JNull = True"
| "strictEq (JBool a) (JBool b) = (a = b)"
| "strictEq (JNum a) (JNum b) = (a \<noteq> NaN \<and> a = b)"
| "strictEq (JStr a) (JStr b) = (a = b)"
| "strictEq a b = False"

text \<open>The \<^verbatim>\<open>forEach\<close> that counts the correct answers, from index \<open>i\<close> on.\<close>

fun countCorrect :: "jsval \<Rightarrow> jsval list \<Rightarrow> nat \<Rightarrow> nat \<Rightarrow> nat option" where
  "countCorrect answers [] i correct = Some correct"
| "countCorrect answers (q # qs) i correct =
     (case elementAt answers i of
        None \<Rightarrow> None
      | Some a \<Rightarrow>
          (case correctAnswerOf q of
             None \<Rightarrow> None
           | Some c \<Rightarrow>
               countCorrect answers qs (Suc i) (if strictEq a c then Suc correct else correct)))"

text \<open>\<^verbatim>\<open>x / n\<close> for the length \<open>n\<close> of an array, and \<^verbatim>\<open>x * k\<close> for a positive \<open>k\<close>.\<close>

fun divByLength :: "jsnum \<Rightarrow> nat \<Rightarrow> jsnum" where
  "divByLength NaN n = NaN"
| "divByLength PosInf n = PosInf"
| "divByLength NegInf n = NegInf"
| "divByLength (Fin r) n =
     (if n = 0 then (if r = 0 then NaN else if 0 < r then PosInf else NegInf)
      else Fin (r / of_nat n))"

fun scale :: "jsnum \<Rightarrow> rat \<Rightarrow> jsnum" where
  "scale (Fin r) k = Fin (r * k)"
| "scale x k = x"

text \<open>
  The block \<^verbatim>\<open>// Determine weak concepts (score < 70% or low confidence)\<close>. The score
  is a number; the confidence is whatever the request carried.
\<close>

definition weakConceptId_of :: "string \<Rightarrow> jsobj \<Rightarrow> string" where
  "weakConceptId_of uid diagnostic = ''weak:'' @ uid @ '':'' @ toString (getProp diagnostic ''topic'')"

definition weakConcept :: "string \<Rightarrow> jsobj \<Rightarrow> jsnum \<Rightarrow> jsval \<Rightarrow> int \<Rightarrow> jsobj" where
  "weakConcept uid diagnostic score confidence t =
     [(''user_id'', JStr uid),
      (''topic'', getProp diagnostic ''topic''),
      (''subject'', getProp diagnostic ''subject''),
      (''score'', JNum score),
      (''confidence'', confidence),
      (''created_at'', JStr (toISOString t))]"

definition determineWeakConcepts ::
    "kvstore \<Rightarrow> string \<Rightarrow> jsobj \<Rightarrow> jsnum \<Rightarrow> jsval \<Rightarrow> int \<Rightarrow> kvstore" where
  "determineWeakConcepts st uid diagnostic score confidence t =
     (if numLess score (Fin 70) \<or> jsLess confidence 3 then
        kv_set st (weakConceptId_of uid diagnostic) (weakConcept uid diagnostic score confidence t)
      else st)"

text \<open>
  The block \<^verbatim>\<open>// Schedule revisions (Day 1, Day 3, Day 7)\<close>: the loop over
  \<open>revisionDays\<close>. A scheduled date that is no valid date makes \<^verbatim>\<open>toISOString\<close> throw,
  which ends the loop and the handler with the revisions written so far. The date is set
  in local time (\<^verbatim>\<open>getDate\<close>, \<^verbatim>\<open>setDate\<close>) and written in UTC.
\<close>

definition revisionDays :: "int list" where
  "revisionDays = [1, 3, 7]"

definition revisionId_of :: "string \<Rightarrow> jsobj \<Rightarrow> int \<Rightarrow> string" where
  "revisionId_of uid diagnostic day =
     ''revision:'' @ uid @ '':'' @ toString (getProp diagnostic ''topic'') @ '':day''
       @ toString (num (of_int day))"

definition newRevision :: "string \<Rightarrow> jsobj \<Rightarrow> int \<Rightarrow> int \<Rightarrow> jsobj" where
  "newRevision uid diagnostic day scheduledDate =
     [(''user_id'', JStr uid),
      (''topic'', getProp diagnostic ''topic''),
      (''subject'', getProp diagnostic ''subject''),
      (''revision_day'', num (of_int day)),
      (''scheduled_date'', JStr (toISOString scheduledDate)),
      (''completed'', JBool False)]"

fun scheduleRevisions ::
    "localTZA \<Rightarrow> string \<Rightarrow> jsobj \<Rightarrow> int \<Rightarrow> int list \<Rightarrow> kvstore \<Rightarrow> error option \<times> kvstore" where
  "scheduleRevisions tza uid diagnostic now [] st = (None, st)"
| "scheduleRevisions tza uid diagnostic now (day # days) st =
     (case setDate tza now (getDate tza now + day) of
        None \<Rightarrow> (Some InternalError, st)
      | Some scheduledDate \<Rightarrow>
          scheduleRevisions tza uid diagnostic now days
            (kv_set st (revisionId_of uid diagnostic day)
               (newRevision uid diagnostic day scheduledDate)))"

text \<open>\<^verbatim>\<open>POST /diagnostic/submit\<close>: the request, and the four times the handler reads the clock, in
  the order it reads them.\<close>

record submit_request = request +
  diagnosticId :: string
  answers :: jsval
  timeTaken :: jsval
  confidence :: jsval

record submit_clock =
  t_completed_at :: int
  t_result_id :: int
  t_created_at :: int
  t_now :: int

text \<open>
  \<^verbatim>\<open>(correct / diagnostic.questions.length) * 100\<close>, and the object \<open>result\<close> with the
  average time \<^verbatim>\<open>timeTaken / diagnostic.questions.length\<close>. The quotient and the product
  are exact here, where the code rounds each to a double (100/3 here, 33.33333333333333
  there).
\<close>

definition scoreOf :: "nat \<Rightarrow> nat \<Rightarrow> jsnum" where
  "scoreOf correct questionCount = scale (divByLength (Fin (of_nat correct)) questionCount) 100"

definition diagnosticResult :: "submit_request \<Rightarrow> jsobj \<Rightarrow> nat \<Rightarrow> nat \<Rightarrow> int \<Rightarrow> jsobj" where
  "diagnosticResult req diagnostic correct questionCount t =
     [(''diagnosticId'', JStr (diagnosticId req)),
      (''score'', JNum (scoreOf correct questionCount)),
      (''correct'', num (of_nat correct)),
      (''total'', num (of_nat questionCount)),
      (''avgTime'', JNum (divByLength (toNumber (timeTaken req)) questionCount)),
      (''confidence'', confidence req),
      (''topic'', getProp diagnostic ''topic''),
      (''subject'', getProp diagnostic ''subject''),
      (''completed_at'', JStr (toISOString t))]"

text \<open>\<^verbatim>\<open>`result:${user.id}:${Date.now()}`\<close>.\<close>

definition resultId_of :: "string \<Rightarrow> int \<Rightarrow> string" where
  "resultId_of uid t = ''result:'' @ uid @ '':'' @ toString (num (of_int t))"

text \<open>The handler.\<close>

definition diagnostic_submit ::
    "localTZA \<Rightarrow> (string \<Rightarrow> string option) \<Rightarrow> kvstore \<Rightarrow> submit_request \<Rightarrow> submit_clock
      \<Rightarrow> response \<times> kvstore" where
  "diagnostic_submit tza getUser st req clk =
     (case authenticate getUser (authorization req) of
        None \<Rightarrow> (Inl Unauthorized, st)
      | Some uid \<Rightarrow>
          (case kv_get st (diagnosticId req) of
             None \<Rightarrow> (Inl NotFound, st)
           | Some diagnostic \<Rightarrow>
               if getProp diagnostic ''user_id'' \<noteq> JStr uid then (Inl NotFound, st)
               else
                 (case getProp diagnostic ''questions'' of
                    JArr questions \<Rightarrow>
                      (case countCorrect (answers req) questions 0 0 of
                         None \<Rightarrow> (Inl InternalError, st)
                       | Some correct \<Rightarrow>
                           let total = length questions;
                               score = scoreOf correct total;
                               result = diagnosticResult req diagnostic correct total
                                          (t_completed_at clk);
                               st1 = kv_set st (diagnosticId req)
                                       (assign diagnostic
                                          [(''completed'', JBool True), (''result'', JObj result)]);
                               resultId = resultId_of uid (t_result_id clk);
                               st2 = kv_set st1 resultId result;
                               st3 = determineWeakConcepts st2 uid diagnostic score
                                       (confidence req) (t_created_at clk)
                           in (case scheduleRevisions tza uid diagnostic (t_now clk)
                                      revisionDays st3 of
                                 (Some e, st4) \<Rightarrow> (Inl e, st4)
                               | (None, st4) \<Rightarrow> (Inr [(''result'', JObj result)], st4)))
                  | _ \<Rightarrow> (Inl InternalError, st))))"

section \<open>The revisions that are due\<close>

text \<open>
  The callback of the filter,
  \<^verbatim>\<open>r.scheduled_date.split('T')[0] <= today && !r.completed\<close>: two strings are compared
  as strings; a \<^verbatim>\<open>scheduled_date\<close> that is no string has no \<^verbatim>\<open>split\<close> and throws
  (\<open>None\<close>).
\<close>

definition dueToday :: "string \<Rightarrow> jsobj \<Rightarrow> bool option" where
  "dueToday today r =
     (case getProp r ''scheduled_date'' of
        JStr s \<Rightarrow> Some (splitT0 s \<le> today \<and> \<not> truthy (getProp r ''completed''))
      | _ \<Rightarrow> None)"

fun filterDue :: "string \<Rightarrow> jsobj list \<Rightarrow> jsobj list option" where
  "filterDue today [] = Some []"
| "filterDue today (r # rs) =
     (case dueToday today r of
        None \<Rightarrow> None
      | Some due \<Rightarrow>
          (case filterDue today rs of
             None \<Rightarrow> None
           | Some out \<Rightarrow> Some (if due then r # out else out)))"

text \<open>The lines \<^verbatim>\<open>// Filter for today's revisions\<close>, for the clock reading \<open>now\<close>.\<close>

definition getDueRevisions :: "jsobj list \<Rightarrow> int \<Rightarrow> jsobj list option" where
  "getDueRevisions allRevisions now = filterDue (splitT0 (toISOString now)) allRevisions"

text \<open>\<^verbatim>\<open>GET /revisions\<close>.\<close>

definition revisions_get ::
    "(string \<Rightarrow> string option) \<Rightarrow> kvstore \<Rightarrow> request \<Rightarrow> int \<Rightarrow> response" where
  "revisions_get getUser st req now =
     (case authenticate getUser (authorization req) of
        None \<Rightarrow> Inl Unauthorized
      | Some uid \<Rightarrow>
          (case getDueRevisions (kv_getByPrefix st (''revision:'' @ uid)) now of
             None \<Rightarrow> Inl InternalError
           | Some todaysRevisions \<Rightarrow> Inr [(''revisions'', JArr (map JObj todaysRevisions))]))"

section \<open>Completing a revision\<close>

record complete_request = request +
  revisionId :: string
  recallScore :: jsval

text \<open>The object \<open>updated\<close> that replaces the revision.\<close>

definition completedRevision :: "jsobj \<Rightarrow> jsval \<Rightarrow> int \<Rightarrow> jsobj" where
  "completedRevision revision score t =
     assign revision
       [(''completed'', JBool True),
        (''recall_score'', score),
        (''completed_at'', JStr (toISOString t))]"

text \<open>
  The object \<open>progress\<close> that the handler stores under \<open>progressId\<close>: the existing
  progress with six properties defined over it, one of them under the computed key
  \<^verbatim>\<open>`day${revision.revision_day}_score`\<close>.
\<close>

definition updateProgress :: "jsobj \<Rightarrow> string \<Rightarrow> jsobj \<Rightarrow> jsval \<Rightarrow> int \<Rightarrow> jsobj" where
  "updateProgress existingProgress uid revision score t =
     assign existingProgress
       [(''user_id'', JStr uid),
        (''topic'', getProp revision ''topic''),
        (''subject'', getProp revision ''subject''),
        (''day'' @ toString (getProp revision ''revision_day'') @ ''_score'', score),
        (''mastery_level'',
           JStr (calculateMasteryLevel existingProgress (getProp revision ''revision_day'') score)),
        (''updated_at'', JStr (toISOString t))]"

text \<open>\<^verbatim>\<open>`progress:${user.id}:${revision.topic}`\<close>.\<close>

definition progressId_of :: "string \<Rightarrow> jsobj \<Rightarrow> string" where
  "progressId_of uid revision = ''progress:'' @ uid @ '':'' @ toString (getProp revision ''topic'')"

text \<open>
  \<^verbatim>\<open>POST /revisions/complete\<close>, with the two times it reads the clock. There is no check
  of \<open>recallScore\<close> and none of whether the revision is completed already.
\<close>

definition revisions_complete ::
    "(string \<Rightarrow> string option) \<Rightarrow> kvstore \<Rightarrow> complete_request \<Rightarrow> int \<Rightarrow> int
      \<Rightarrow> response \<times> kvstore" where
  "revisions_complete getUser st req t_completed t_updated =
     (case authenticate getUser (authorization req) of
        None \<Rightarrow> (Inl Unauthorized, st)
      | Some uid \<Rightarrow>
          (case kv_get st (revisionId req) of
             None \<Rightarrow> (Inl NotFound, st)
           | Some revision \<Rightarrow>
               if getProp revision ''user_id'' \<noteq> JStr uid then (Inl NotFound, st)
               else
                 let updated = completedRevision revision (recallScore req) t_completed;
                     st1 = kv_set st (revisionId req) updated;
                     progressId = progressId_of uid revision;
                     existingProgress = (case kv_get st1 progressId of None \<Rightarrow> [] | Some p \<Rightarrow> p);
                     progress = updateProgress existingProgress uid revision
                                  (recallScore req) t_updated;
                     st2 = kv_set st1 progressId progress
                 in (Inr [(''revision'', JObj updated), (''progress'', JObj progress)], st2)))"

text \<open>
  What a client reads off the answer of \<^verbatim>\<open>POST /revisions/complete\<close>: the error, or the
  \<^verbatim>\<open>mastery_level\<close> of the \<^verbatim>\<open>progress\<close> object in the body.
\<close>

definition masteryLevelOf :: "response \<Rightarrow> error + jsval" where
  "masteryLevelOf r =
     (case r of
        Inl e \<Rightarrow> Inl e
      | Inr body \<Rightarrow>
          (case getProp body ''progress'' of
             JObj progress \<Rightarrow> Inr (getProp progress ''mastery_level'')
           | _ \<Rightarrow> Inr JUndefined))"

section \<open>A small scenario\<close>

text \<open>
  One user, whose token is \<open>tok\<close>; two generated diagnostics of eight questions
  each on Thermodynamics, with a request that answers one of them; and, in the store
  \<open>demo_scheduled\<close>, the three revisions that the loop schedules for the topic on
  3 November 2026, 09:52 UTC, on a runtime whose local time is UTC (\<open>zoneUTC\<close>).
\<close>

definition demo_getUser :: "string \<Rightarrow> string option" where
  "demo_getUser token = (if token = ''tok'' then Some ''u1'' else None)"

definition demo_question :: "rat \<Rightarrow> jsval" where
  "demo_question c = JObj [(''id'', JStr ''q''), (''correctAnswer'', num c)]"

definition demo_diagnostic :: jsobj where
  "demo_diagnostic =
     [(''id'', JStr ''diagnostic:u1:1793699000000''),
      (''user_id'', JStr ''u1''),
      (''topic'', JStr ''Thermodynamics''),
      (''subject'', JStr ''Physics''),
      (''questions'', JArr (map demo_question [0, 1, 2, 3, 0, 1, 2, 3])),
      (''created_at'', JStr ''2026-11-03T09:43:20.000Z''),
      (''completed'', JBool False)]"

definition demo_diagnostic2 :: jsobj where
  "demo_diagnostic2 =
     [(''id'', JStr ''diagnostic:u1:1793785000000''),
      (''user_id'', JStr ''u1''),
      (''topic'', JStr ''Thermodynamics''),
      (''subject'', JStr ''Physics''),
      (''questions'', JArr (map demo_question [3, 2, 1, 0, 3, 2, 1, 0])),
      (''created_at'', JStr ''2026-11-04T09:36:40.000Z''),
      (''completed'', JBool False)]"

definition demo_store :: kvstore where
  "demo_store =
     [(''diagnostic:u1:1793699000000'', demo_diagnostic),
      (''diagnostic:u1:1793785000000'', demo_diagnostic2)]"

definition demo_submit :: "string \<Rightarrow> submit_request" where
  "demo_submit did =
     \<lparr>authorization = Some ''Bearer tok'',
      diagnosticId = did,
      answers = JArr (map num [0, 1, 2, 3, 0, 0, 0, 0]),
      timeTaken = num 120,
      confidence = num 2\<rparr>"

definition demo_clock :: "int \<Rightarrow> submit_clock" where
  "demo_clock t =
     \<lparr>t_completed_at = t, t_result_id = t + 1, t_created_at = t + 2, t_now = t + 3\<rparr>"

definition demo_now :: int where
  "demo_now = 1793699520000"

definition demo_later :: int where
  "demo_later = 1793785920000"

definition zoneUTC :: localTZA where
  "zoneUTC t isUTC = 0"

definition demo_scheduled :: kvstore where
  "demo_scheduled =
     snd (scheduleRevisions zoneUTC ''u1'' demo_diagnostic demo_now revisionDays [])"

text \<open>
  The store after the first diagnostic has been submitted at \<open>demo_now\<close>, and after the
  second one has been submitted a day later, at \<open>demo_later\<close>.
\<close>

definition demo_after1 :: kvstore where
  "demo_after1 =
     snd (diagnostic_submit zoneUTC demo_getUser demo_store
            (demo_submit ''diagnostic:u1:1793699000000'') (demo_clock demo_now))"

definition demo_after2 :: kvstore where
  "demo_after2 =
     snd (diagnostic_submit zoneUTC demo_getUser demo_after1
            (demo_submit ''diagnostic:u1:1793785000000'') (demo_clock demo_later))"

definition demo_complete :: "int \<Rightarrow> jsval \<Rightarrow> complete_request" where
  "demo_complete day score =
     \<lparr>authorization = Some ''Bearer tok'',
      revisionId = revisionId_of ''u1'' demo_diagnostic day,
      recallScore = score\<rparr>"

text \<open>The property \<open>k\<close> of the object stored under \<open>key\<close>, if there is one.\<close>

definition kv_getProp :: "kvstore \<Rightarrow> string \<Rightarrow> string \<Rightarrow> jsval option" where
  "kv_getProp st key k = (case kv_get st key of None \<Rightarrow> None | Some obj \<Rightarrow> Some (getProp obj k))"


text \<open>
  The store after the day-1 revision of \<open>demo_scheduled\<close> has been completed on
  4 November 2026, a request for the revisions that are due, and a clock reading one
  second after midnight (UTC) on 6 November 2026. \<open>demo_scheduledDate\<close> is the time for
  which a revision of the scenario is scheduled, read off its \<open>revision_day\<close>.
\<close>

definition demo_get :: request where
  "demo_get = \<lparr>authorization = Some ''Bearer tok''\<rparr>"

definition demo_done1 :: kvstore where
  "demo_done1 =
     snd (revisions_complete demo_getUser demo_scheduled (demo_complete 1 (num 6))
            1793790000000 1793790000001)"

definition demo_third_day :: int where
  "demo_third_day = 1793923201000"

definition demo_scheduledDate :: "jsobj \<Rightarrow> int" where
  "demo_scheduledDate r =
     (if getProp r ''revision_day'' = num 1 then 1793785920000
      else if getProp r ''revision_day'' = num 3 then 1793958720000
      else 1794304320000)"

text \<open>
  A zone with daylight saving time: US Eastern time as it is between March 2026 and
  November 2027, five hours behind UTC and four in summer. Summer time ends on
  1 November 2026 at 06:00 UTC, when the local clocks go from 02:00 back to 01:00, and
  begins on 14 March 2027 at 07:00 UTC, when they go from 02:00 on to 03:00. A local time
  that occurs twice, and one that is skipped, is read with the offset before the change.
  \<open>demo_autumn\<close> is 31 October 2026, 12:00 UTC (08:00 local time), and
  \<open>demo_spring\<close> is 13 March 2027, 07:30 UTC (02:30 local time).
\<close>

definition demo_eastern :: localTZA where
  "demo_eastern t isUTC =
     (if isUTC then
        (if t < 1793512800000 then - 14400000
         else if t < 1805007600000 then - 18000000 else - 14400000)
      else
        (if t < 1793498400000 then - 14400000
         else if t < 1804993200000 then - 18000000 else - 14400000))"

definition demo_autumn :: int where
  "demo_autumn = 1793448000000"

definition demo_spring :: int where
  "demo_spring = 1804923000000"


section \<open>Properties of the mastery level\<close>

lemma stringToNumber_Nil: "stringToNumber [] = Fin 0"
  by (simp add: stringToNumber_def trim_def)

lemma numGreaterEq_Fin: "numGreaterEq (Fin a) (Fin b) = (b \<le> a)"
  by (auto simp: numGreaterEq_def)

text \<open>
  Against a positive threshold, \<^verbatim>\<open>(v || 0) >= k\<close> and \<^verbatim>\<open>(v ?? 0) >= k\<close> agree: the
  values that only \<^verbatim>\<open>||\<close> replaces (\<^verbatim>\<open>false\<close>, \<^verbatim>\<open>0\<close>, \<^verbatim>\<open>NaN\<close>, the empty string)
  convert to 0 or NaN, which no positive threshold accepts.
\<close>

lemma jsOr_threshold:
  assumes "0 < k"
  shows "jsGreaterEq (jsOr v (num 0)) k = numGreaterEq (toNumber (nullish v (num 0))) (Fin k)"
proof (cases v)
  case (JNum n)
  with assms show ?thesis
    by (cases n) (auto simp: jsGreaterEq_def jsOr_def nullish_def numGreaterEq_def)
next
  case (JStr s)
  with assms show ?thesis
    by (cases "s = []")
       (auto simp: jsGreaterEq_def jsOr_def nullish_def numGreaterEq_def stringToNumber_Nil)
next
  case (JBool b)
  with assms show ?thesis
    by (cases b) (auto simp: jsGreaterEq_def jsOr_def nullish_def numGreaterEq_def)
qed (use assms in \<open>auto simp: jsGreaterEq_def jsOr_def nullish_def numGreaterEq_def\<close>)

lemma jsGreaterEq_num: "jsGreaterEq (num a) k = (k \<le> a)"
  by (simp add: jsGreaterEq_def numGreaterEq_Fin)

lemma calculateMasteryLevel_spec:
  "calculateMasteryLevel progress day score = computeMasteryLevel_spec progress day"
  by (simp add: calculateMasteryLevel_def computeMasteryLevel_spec_def dayScore_def
      jsOr_threshold Let_def)

text \<open>
  C1. \<open>calculateMasteryLevel\<close> is the classification of the specification, for every
  progress object, every completed revision day and every submitted score: with the day
  scores read as numbers, a missing one counting as 0, the result is \<open>mastered\<close> when the
  day is 7 and \<open>day7 \<ge> 80\<close>; otherwise \<open>improving\<close> when the day is at least 3,
  \<open>day3 \<ge> 70\<close> and \<open>day1 \<ge> 60\<close>; otherwise \<open>learning\<close> when the day is 1 and
  \<open>day1 \<ge> 60\<close>; otherwise \<open>weak\<close>. The thresholds are compared literally. The three
  days a revision can have are spelled out.
\<close>

theorem calculateMasteryLevel_classifies:
  "calculateMasteryLevel progress day score = computeMasteryLevel_spec progress day
   \<and> calculateMasteryLevel progress (num 1) score =
       (if numGreaterEq (dayScore progress ''day1_score'') (Fin 60) then ''learning'' else ''weak'')
   \<and> calculateMasteryLevel progress (num 3) score =
       (if numGreaterEq (dayScore progress ''day3_score'') (Fin 70)
           \<and> numGreaterEq (dayScore progress ''day1_score'') (Fin 60)
        then ''improving'' else ''weak'')
   \<and> calculateMasteryLevel progress (num 7) score =
       (if numGreaterEq (dayScore progress ''day7_score'') (Fin 80) then ''mastered''
        else if numGreaterEq (dayScore progress ''day3_score'') (Fin 70)
                \<and> numGreaterEq (dayScore progress ''day1_score'') (Fin 60)
        then ''improving'' else ''weak'')"
  unfolding calculateMasteryLevel_spec
  by (simp add: computeMasteryLevel_spec_def jsGreaterEq_num Let_def)

lemma calculateMasteryLevel_cong:
  assumes "getProp p ''day1_score'' = getProp p' ''day1_score''"
      and "getProp p ''day3_score'' = getProp p' ''day3_score''"
      and "getProp p ''day7_score'' = getProp p' ''day7_score''"
  shows "calculateMasteryLevel p day s = calculateMasteryLevel p' day s'"
  using assms by (simp add: calculateMasteryLevel_def)

lemma getProp_Nil: "getProp [] k = JUndefined"
  by (simp add: getProp_def)

lemma calculateMasteryLevel_empty: "calculateMasteryLevel [] day score = ''weak''"
  by (simp add: calculateMasteryLevel_def getProp_Nil jsOr_def jsGreaterEq_def numGreaterEq_def)

lemma mastered_only_if:
  assumes "calculateMasteryLevel p day s = ''mastered''"
  shows "day = num 7 \<and> numGreaterEq (dayScore p ''day7_score'') (Fin 80)"
  using assms unfolding calculateMasteryLevel_spec
  by (auto simp: computeMasteryLevel_spec_def Let_def split: if_splits)

lemma dayScore_stored:
  assumes "numGreaterEq (dayScore p k) (Fin 80)"
  shows "map_of p k \<noteq> None"
  using assms
  by (auto simp: dayScore_def getProp_def nullish_def numGreaterEq_def split: option.splits)

section \<open>Adding days to a date\<close>

lemma MonthFromTime_range: "0 \<le> MonthFromTime t \<and> MonthFromTime t \<le> 11"
  by (simp add: MonthFromTime_def Let_def)

lemma DateFromTime_offset:
  "DateFromTime t = DayWithinYear t - monthOffset (MonthFromTime t) (InLeapYear t) + 1"
  by (simp add: DateFromTime_def monthOffset_def Let_def)

lemma MakeDay_DateFromTime:
  "MakeDay (YearFromTime t) (MonthFromTime t) (DateFromTime t + n) = Day t + n"
proof -
  have m: "MonthFromTime t div 12 = 0" "MonthFromTime t mod 12 = MonthFromTime t"
    using MonthFromTime_range[of t] by simp_all
  show ?thesis
    by (simp add: MakeDay_def m firstDayOfMonth_def DateFromTime_offset InLeapYear_def
        DayWithinYear_def Let_def)
qed

lemma MakeDate_Day: "MakeDate (Day t + n) (TimeWithinDay t) = t + n * msPerDay"
  by (simp add: MakeDate_def Day_def TimeWithinDay_def algebra_simps)

text \<open>
  \<^verbatim>\<open>d.setDate(d.getDate() + n)\<close> adds \<open>n\<close> days to the local time and reads the result
  as a local time.
\<close>

lemma setDate_getDate:
  "setDate tza t (getDate tza t + n) = TimeClip (UTC tza (LocalTime tza t + n * msPerDay))"
  by (simp add: setDate_def getDate_def Let_def MakeDay_DateFromTime MakeDate_Day)

lemma zoneUTC_time: "LocalTime zoneUTC t = t" "UTC zoneUTC t = t"
  by (simp_all add: LocalTime_def UTC_def zoneUTC_def)

lemma Day_plus_days: "Day (t + n * msPerDay) = Day t + n"
  by (simp add: Day_def msPerDay_def)

lemma TimeWithinDay_plus_days: "TimeWithinDay (t + n * msPerDay) = TimeWithinDay t"
  by (simp add: TimeWithinDay_def msPerDay_def)

lemma TimeClip_valid: "\<bar>t\<bar> \<le> 8640000000000000 \<Longrightarrow> TimeClip t = Some t"
  by (simp add: TimeClip_def)

lemma ratToString_days:
  "ratToString 1 = ''1''" "ratToString 2 = ''2''" "ratToString 3 = ''3''" "ratToString 7 = ''7''"
  by code_simp+

lemma revisionId_of_distinct:
  "revisionId_of uid diagnostic 1 \<noteq> revisionId_of uid diagnostic 3"
  "revisionId_of uid diagnostic 1 \<noteq> revisionId_of uid diagnostic 7"
  "revisionId_of uid diagnostic 3 \<noteq> revisionId_of uid diagnostic 7"
  by (simp_all add: revisionId_of_def ratToString_days)

lemma kv_get_set: "kv_get (kv_set st k v) k' = (if k' = k then Some v else kv_get st k')"
  by (simp add: kv_get_def kv_set_def update_conv')

lemma kv_set_keys: "set (map fst (kv_set st k v)) = insert k (set (map fst st))"
  by (auto simp: kv_set_def update_keys)

text \<open>The loop over the three days, when the three scheduled dates are valid dates.\<close>

lemma scheduleRevisions_revisionDays:
  assumes "\<forall>day \<in> set revisionDays.
             \<bar>UTC tza (LocalTime tza now + day * msPerDay)\<bar> \<le> 8640000000000000"
  shows "scheduleRevisions tza uid diagnostic now revisionDays st =
     (None,
      kv_set
        (kv_set
          (kv_set st (revisionId_of uid diagnostic 1)
             (newRevision uid diagnostic 1 (UTC tza (LocalTime tza now + 1 * msPerDay))))
          (revisionId_of uid diagnostic 3)
          (newRevision uid diagnostic 3 (UTC tza (LocalTime tza now + 3 * msPerDay))))
        (revisionId_of uid diagnostic 7)
        (newRevision uid diagnostic 7 (UTC tza (LocalTime tza now + 7 * msPerDay))))"
proof -
  have "\<bar>UTC tza (LocalTime tza now + 1 * msPerDay)\<bar> \<le> 8640000000000000"
       "\<bar>UTC tza (LocalTime tza now + 3 * msPerDay)\<bar> \<le> 8640000000000000"
       "\<bar>UTC tza (LocalTime tza now + 7 * msPerDay)\<bar> \<le> 8640000000000000"
    using assms by (simp_all add: revisionDays_def)
  then show ?thesis
    by (simp add: revisionDays_def setDate_getDate TimeClip_valid)
qed

text \<open>Where local time is UTC the three dates are valid as soon as the anchor is.\<close>

lemma zoneUTC_valid:
  assumes "- 8640000000000000 \<le> now + msPerDay" and "now + 7 * msPerDay \<le> 8640000000000000"
  shows "\<forall>day \<in> set revisionDays.
           \<bar>UTC zoneUTC (LocalTime zoneUTC now + day * msPerDay)\<bar> \<le> 8640000000000000"
  using assms by (simp add: revisionDays_def zoneUTC_time msPerDay_def abs_le_iff)

section \<open>Objects and the store: basic facts\<close>

lemma map_of_assign: "map_of (assign base fs) = map_of base ++ map_of (rev fs)"
proof (induction fs arbitrary: base)
  case Nil
  then show ?case by (simp add: assign_def)
next
  case (Cons f fs)
  obtain k v where f: "f = (k, v)" by (cases f)
  have "assign base (f # fs) = assign (AList.update k v base) fs"
    by (simp add: assign_def f)
  then show ?case
    by (simp add: Cons.IH update_conv' f map_add_upd_left map_add_def fun_eq_iff split: option.splits)
qed

lemma getProp_assign:
  "getProp (assign base fs) k =
     (case map_of (rev fs) k of None \<Rightarrow> getProp base k | Some v \<Rightarrow> v)"
  by (simp add: getProp_def map_of_assign map_add_def split: option.splits)

section \<open>Properties of completing a revision\<close>

lemma revisions_complete_ok:
  assumes "authenticate getUser (authorization req) = Some uid"
      and "kv_get st (revisionId req) = Some revision"
      and "getProp revision ''user_id'' = JStr uid"
  shows "revisions_complete getUser st req t1 t2 =
     (let updated = completedRevision revision (recallScore req) t1;
          st1 = kv_set st (revisionId req) updated;
          progressId = progressId_of uid revision;
          existingProgress = (case kv_get st1 progressId of None \<Rightarrow> [] | Some p \<Rightarrow> p);
          progress = updateProgress existingProgress uid revision (recallScore req) t2
      in (Inr [(''revision'', JObj updated), (''progress'', JObj progress)],
          kv_set st1 progressId progress))"
  using assms by (simp add: revisions_complete_def Let_def)

lemma getProp_completedRevision:
  "getProp (completedRevision revision score t) k =
     (if k = ''completed'' then JBool True
      else if k = ''recall_score'' then score
      else if k = ''completed_at'' then JStr (toISOString t)
      else getProp revision k)"
  by (simp add: completedRevision_def getProp_assign)

lemma getProp_updateProgress:
  "getProp (updateProgress existing uid revision score t) k =
     (if k = ''updated_at'' then JStr (toISOString t)
      else if k = ''mastery_level'' then
        JStr (calculateMasteryLevel existing (getProp revision ''revision_day'') score)
      else if k = ''day'' @ toString (getProp revision ''revision_day'') @ ''_score'' then score
      else if k = ''subject'' then getProp revision ''subject''
      else if k = ''topic'' then getProp revision ''topic''
      else if k = ''user_id'' then JStr uid
      else getProp existing k)"
  by (simp add: updateProgress_def getProp_assign)

text \<open>The progress that the handler reads, whatever score was sent.\<close>

lemma existing_scores:
  assumes "kv_get st rid = Some revision"
  shows "getProp (case kv_get (kv_set st rid (completedRevision revision s t)) pid of
                    None \<Rightarrow> [] | Some p \<Rightarrow> p) k
         = (if k = ''completed'' \<and> pid = rid then JBool True
            else if k = ''recall_score'' \<and> pid = rid then s
            else if k = ''completed_at'' \<and> pid = rid then JStr (toISOString t)
            else getProp (case kv_get st pid of None \<Rightarrow> [] | Some p \<Rightarrow> p) k)"
  using assms by (simp add: kv_get_set getProp_completedRevision)

lemma masteryLevelOf_complete:
  assumes "authenticate getUser (authorization req) = Some uid"
      and "kv_get st (revisionId req) = Some revision"
      and "getProp revision ''user_id'' = JStr uid"
  shows "masteryLevelOf (fst (revisions_complete getUser st req t1 t2)) =
           Inr (JStr (calculateMasteryLevel
              (case (if progressId_of uid revision = revisionId req
                     then Some (completedRevision revision (recallScore req) t1)
                     else kv_get st (progressId_of uid revision)) of None \<Rightarrow> [] | Some p \<Rightarrow> p)
              (getProp revision ''revision_day'') (recallScore req)))"
  using assms
  by (simp add: revisions_complete_ok masteryLevelOf_def Let_def getProp_def kv_get_set
      getProp_updateProgress[unfolded getProp_def])

lemma masteryLevelOf_Inr_complete:
  assumes "masteryLevelOf (fst (revisions_complete getUser st req t1 t2)) = Inr v"
      and "authenticate getUser (authorization req) = Some uid"
  shows "\<exists>revision. kv_get st (revisionId req) = Some revision
           \<and> getProp revision ''user_id'' = JStr uid"
  using assms
  by (auto simp: revisions_complete_def masteryLevelOf_def split: option.splits if_splits)




lemma demo_auth: "authenticate demo_getUser (authorization (demo_complete day score)) = Some ''u1''"
  by (simp add: demo_complete_def authenticate_def accessToken_def demo_getUser_def)

lemma demo_scheduled_eq:
  "demo_scheduled =
     [(revisionId_of ''u1'' demo_diagnostic 1, newRevision ''u1'' demo_diagnostic 1 1793785920000),
      (revisionId_of ''u1'' demo_diagnostic 3, newRevision ''u1'' demo_diagnostic 3 1793958720000),
      (revisionId_of ''u1'' demo_diagnostic 7, newRevision ''u1'' demo_diagnostic 7 1794304320000)]"
proof -
  have v: "\<forall>day \<in> set revisionDays.
      \<bar>UTC zoneUTC (LocalTime zoneUTC demo_now + day * msPerDay)\<bar> \<le> 8640000000000000"
    by (rule zoneUTC_valid) (simp_all add: demo_now_def msPerDay_def)
  show ?thesis
    unfolding demo_scheduled_def scheduleRevisions_revisionDays[OF v]
    by (simp add: zoneUTC_time demo_now_def msPerDay_def kv_set_def revisionId_of_distinct)
qed

lemma demo_revision:
  "kv_get demo_scheduled (revisionId (demo_complete 1 score))
     = Some (newRevision ''u1'' demo_diagnostic 1 1793785920000)"
  "kv_get demo_scheduled (revisionId (demo_complete 3 score))
     = Some (newRevision ''u1'' demo_diagnostic 3 1793958720000)"
  "kv_get demo_scheduled (revisionId (demo_complete 7 score))
     = Some (newRevision ''u1'' demo_diagnostic 7 1794304320000)"
  by (simp_all add: demo_scheduled_eq demo_complete_def kv_get_def revisionId_of_distinct
      revisionId_of_distinct[symmetric])

lemma demo_no_progress:
  "kv_get demo_scheduled (progressId_of ''u1'' revision) = None"
  by (simp add: demo_scheduled_eq kv_get_def revisionId_of_def progressId_of_def)

lemma demo_recallScore: "recallScore (demo_complete day score) = score"
  by (simp add: demo_complete_def)

lemma demo_owner: "getProp (newRevision ''u1'' demo_diagnostic day t) ''user_id'' = JStr ''u1''"
  by (simp add: newRevision_def getProp_def)










text \<open>
  C8. The progress object that completing a revision stores is a merge over the existing
  one: for a revision of day 1, 3 or 7 and any recall score, the property
  \<open>dayN_score\<close> of that day becomes the score, \<open>mastery_level\<close> is recomputed (from the
  existing object) and \<open>updated_at\<close> is the time of the request; the day scores of the
  two other days, and every property other than \<open>user_id\<close>, \<open>topic\<close>, \<open>subject\<close> and
  those three, are as they were. The handler stores this object under the progress key,
  built over the object that was stored there (over the empty object if there was none).
\<close>

theorem updateProgress_merges:
  assumes day: "getProp revision ''revision_day'' = num d"
      and d: "d = 1 \<or> d = 3 \<or> d = 7"
  shows "getProp (updateProgress existingProgress uid revision score t)
             (''day'' @ toString (num d) @ ''_score'') = score
    \<and> (d = 1 \<longrightarrow>
          getProp (updateProgress existingProgress uid revision score t) ''day1_score'' = score
        \<and> getProp (updateProgress existingProgress uid revision score t) ''day3_score''
            = getProp existingProgress ''day3_score''
        \<and> getProp (updateProgress existingProgress uid revision score t) ''day7_score''
            = getProp existingProgress ''day7_score'')
    \<and> (d = 3 \<longrightarrow>
          getProp (updateProgress existingProgress uid revision score t) ''day3_score'' = score
        \<and> getProp (updateProgress existingProgress uid revision score t) ''day1_score''
            = getProp existingProgress ''day1_score''
        \<and> getProp (updateProgress existingProgress uid revision score t) ''day7_score''
            = getProp existingProgress ''day7_score'')
    \<and> (d = 7 \<longrightarrow>
          getProp (updateProgress existingProgress uid revision score t) ''day7_score'' = score
        \<and> getProp (updateProgress existingProgress uid revision score t) ''day1_score''
            = getProp existingProgress ''day1_score''
        \<and> getProp (updateProgress existingProgress uid revision score t) ''day3_score''
            = getProp existingProgress ''day3_score'')
    \<and> getProp (updateProgress existingProgress uid revision score t) ''mastery_level''
        = JStr (calculateMasteryLevel existingProgress (num d) score)
    \<and> getProp (updateProgress existingProgress uid revision score t) ''updated_at''
        = JStr (toISOString t)
    \<and> (\<forall>k. k \<notin> {''user_id'', ''topic'', ''subject'', ''day'' @ toString (num d) @ ''_score'',
                 ''mastery_level'', ''updated_at''}
         \<longrightarrow> getProp (updateProgress existingProgress uid revision score t) k
             = getProp existingProgress k)
    \<and> (authenticate getUser (authorization req) = Some uid
         \<and> kv_get st (revisionId req) = Some revision
         \<and> getProp revision ''user_id'' = JStr uid
         \<and> progressId_of uid revision \<noteq> revisionId req
       \<longrightarrow> kv_get (snd (revisions_complete getUser st req t1 t2)) (progressId_of uid revision)
           = Some (updateProgress
                     (case kv_get st (progressId_of uid revision) of None \<Rightarrow> [] | Some p \<Rightarrow> p)
                     uid revision (recallScore req) t2))"
proof -
  let ?p = "updateProgress existingProgress uid revision score t"
  have k1: "getProp ?p (''day'' @ toString (num d) @ ''_score'') = score"
    by (simp add: getProp_updateProgress day)
  have c1: "getProp ?p ''day1_score'' = score
        \<and> getProp ?p ''day3_score'' = getProp existingProgress ''day3_score''
        \<and> getProp ?p ''day7_score'' = getProp existingProgress ''day7_score''" if "d = 1"
    using that by (simp add: getProp_updateProgress day ratToString_days)
  have c3: "getProp ?p ''day3_score'' = score
        \<and> getProp ?p ''day1_score'' = getProp existingProgress ''day1_score''
        \<and> getProp ?p ''day7_score'' = getProp existingProgress ''day7_score''" if "d = 3"
    using that by (simp add: getProp_updateProgress day ratToString_days)
  have c7: "getProp ?p ''day7_score'' = score
        \<and> getProp ?p ''day1_score'' = getProp existingProgress ''day1_score''
        \<and> getProp ?p ''day3_score'' = getProp existingProgress ''day3_score''" if "d = 7"
    using that by (simp add: getProp_updateProgress day ratToString_days)
  have m: "getProp ?p ''mastery_level'' = JStr (calculateMasteryLevel existingProgress (num d) score)"
    by (simp add: getProp_updateProgress day)
  have u: "getProp ?p ''updated_at'' = JStr (toISOString t)"
    by (simp add: getProp_updateProgress)
  have rest: "getProp ?p k = getProp existingProgress k"
    if "k \<notin> {''user_id'', ''topic'', ''subject'', ''day'' @ toString (num d) @ ''_score'',
                 ''mastery_level'', ''updated_at''}" for k
    using that by (simp add: getProp_updateProgress day)
  have store: "kv_get (snd (revisions_complete getUser st req t1 t2)) (progressId_of uid revision)
           = Some (updateProgress
                     (case kv_get st (progressId_of uid revision) of None \<Rightarrow> [] | Some p \<Rightarrow> p)
                     uid revision (recallScore req) t2)"
    if "authenticate getUser (authorization req) = Some uid
         \<and> kv_get st (revisionId req) = Some revision
         \<and> getProp revision ''user_id'' = JStr uid
         \<and> progressId_of uid revision \<noteq> revisionId req"
    using that by (simp add: revisions_complete_ok Let_def kv_get_set)
  show ?thesis
    using k1 c1 c3 c7 m u rest store by blast
qed

theorem updateProgress_merges_witness:
  "getProp (newRevision ''u1'' demo_diagnostic 3 1793958720000) ''revision_day'' = num 3
   \<and> ((3::rat) = 1 \<or> (3::rat) = 3 \<or> (3::rat) = 7)
   \<and> getProp (updateProgress [(''day1_score'', num 8), (''mastery_level'', JStr ''weak'')] ''u1''
               (newRevision ''u1'' demo_diagnostic 3 1793958720000) (num 6) 1793958720001)
         ''day3_score'' = num 6
   \<and> getProp (updateProgress [(''day1_score'', num 8), (''mastery_level'', JStr ''weak'')] ''u1''
               (newRevision ''u1'' demo_diagnostic 3 1793958720000) (num 6) 1793958720001)
         ''day1_score'' = num 8"
proof -
  have day: "getProp (newRevision ''u1'' demo_diagnostic 3 1793958720000) ''revision_day'' = num 3"
    by (simp add: newRevision_def getProp_def)
  have d: "(3::rat) = 1 \<or> (3::rat) = 3 \<or> (3::rat) = 7" by simp
  show ?thesis
    using day d
      updateProgress_merges[OF day d,
        where existingProgress = "[(''day1_score'', num 8), (''mastery_level'', JStr ''weak'')]"
          and uid = "''u1''" and score = "num 6" and t = 1793958720001,
        THEN conjunct2, THEN conjunct2, THEN conjunct1]
    by (simp add: getProp_def)
qed

text \<open>
  C5. The mastery level does not depend on the recall score that is being submitted:
  \<open>calculateMasteryLevel\<close> gives the same level for any two scores, and two requests to
  \<^verbatim>\<open>POST /revisions/complete\<close> that differ in nothing but \<open>recallScore\<close> are answered with
  the same error or with the same \<open>mastery_level\<close>. The level is computed from the day
  scores stored before the request.
\<close>

theorem mastery_independent_of_score:
  "calculateMasteryLevel existingProgress day s1 = calculateMasteryLevel existingProgress day s2
   \<and> masteryLevelOf (fst (revisions_complete getUser st (req\<lparr>recallScore := s1\<rparr>) t1 t2))
     = masteryLevelOf (fst (revisions_complete getUser st (req\<lparr>recallScore := s2\<rparr>) t1 t2))"
proof
  show "calculateMasteryLevel existingProgress day s1 = calculateMasteryLevel existingProgress day s2"
    by (simp add: calculateMasteryLevel_def)
next
  let ?run = "\<lambda>s. revisions_complete getUser st (req\<lparr>recallScore := s\<rparr>) t1 t2"
  show "masteryLevelOf (fst (?run s1)) = masteryLevelOf (fst (?run s2))"
  proof (cases "authenticate getUser (authorization req)")
    case None
    then show ?thesis by (simp add: revisions_complete_def)
  next
    case (Some uid)
    show ?thesis
    proof (cases "kv_get st (revisionId req)")
      case None
      with Some show ?thesis by (simp add: revisions_complete_def)
    next
      case (Some revision)
      note rev = this
      show ?thesis
      proof (cases "getProp revision ''user_id'' = JStr uid")
        case False
        with \<open>authenticate getUser (authorization req) = Some uid\<close> rev show ?thesis
          by (simp add: revisions_complete_def)
      next
        case True
        have "masteryLevelOf (fst (?run s)) =
                Inr (JStr (calculateMasteryLevel
                  (case kv_get (kv_set st (revisionId req) (completedRevision revision s t1))
                          (progressId_of uid revision) of None \<Rightarrow> [] | Some p \<Rightarrow> p)
                  (getProp revision ''revision_day'') s))" for s
          using \<open>authenticate getUser (authorization req) = Some uid\<close> rev True
          by (simp add: revisions_complete_ok masteryLevelOf_def Let_def getProp_def
              getProp_updateProgress[unfolded getProp_def])
        moreover have "calculateMasteryLevel
                  (case kv_get (kv_set st (revisionId req) (completedRevision revision s1 t1))
                          (progressId_of uid revision) of None \<Rightarrow> [] | Some p \<Rightarrow> p)
                  (getProp revision ''revision_day'') s1
              = calculateMasteryLevel
                  (case kv_get (kv_set st (revisionId req) (completedRevision revision s2 t1))
                          (progressId_of uid revision) of None \<Rightarrow> [] | Some p \<Rightarrow> p)
                  (getProp revision ''revision_day'') s2"
          by (rule calculateMasteryLevel_cong) (simp_all add: existing_scores[OF rev])
        ultimately show ?thesis by simp
      qed
    qed
  qed
qed

text \<open>
  C10. When no progress object is stored for the topic, completing a revision of the
  topic answers \<open>mastery_level = weak\<close>, whatever the day and the score: the handler
  classifies the empty object, and \<open>calculateMasteryLevel\<close> of the empty object is
  \<open>weak\<close>. An answer \<open>mastered\<close> needs a revision of day 7 and a progress object that
  is already stored for the topic with a \<open>day7_score\<close> of at least 80; and the handler
  changes the \<open>day7_score\<close> of a progress object only for a revision whose day prints as
  7. So the level \<open>mastered\<close> is only reached by completing a day-7 revision of the topic
  again, after an earlier completion stored a day-7 score of at least 80.
\<close>

theorem first_completion_is_weak:
  assumes auth: "authenticate getUser (authorization req) = Some uid"
  shows "calculateMasteryLevel [] day score = ''weak''
    \<and> (\<forall>revision. kv_get st (revisionId req) = Some revision
           \<and> getProp revision ''user_id'' = JStr uid
           \<and> kv_get st (progressId_of uid revision) = None
         \<longrightarrow> masteryLevelOf (fst (revisions_complete getUser st req t1 t2))
               = Inr (JStr ''weak''))
    \<and> (masteryLevelOf (fst (revisions_complete getUser st req t1 t2)) = Inr (JStr ''mastered'')
         \<longrightarrow> (\<exists>revision existingProgress.
                kv_get st (revisionId req) = Some revision
              \<and> getProp revision ''revision_day'' = num 7
              \<and> kv_get st (progressId_of uid revision) = Some existingProgress
              \<and> map_of existingProgress ''day7_score'' \<noteq> None
              \<and> numGreaterEq (dayScore existingProgress ''day7_score'') (Fin 80)))
    \<and> (getProp (updateProgress existingProgress uid revision score t) ''day7_score''
           \<noteq> getProp existingProgress ''day7_score''
         \<longrightarrow> toString (getProp revision ''revision_day'') = ''7'')"
proof (intro conjI allI impI)
  show "calculateMasteryLevel [] day score = ''weak''"
    by (rule calculateMasteryLevel_empty)
next
  fix revision
  assume a: "kv_get st (revisionId req) = Some revision
           \<and> getProp revision ''user_id'' = JStr uid
           \<and> kv_get st (progressId_of uid revision) = None"
  then have ne: "progressId_of uid revision \<noteq> revisionId req" by auto
  show "masteryLevelOf (fst (revisions_complete getUser st req t1 t2)) = Inr (JStr ''weak'')"
    using a ne by (simp add: masteryLevelOf_complete[OF auth] calculateMasteryLevel_empty)
next
  assume m: "masteryLevelOf (fst (revisions_complete getUser st req t1 t2)) = Inr (JStr ''mastered'')"
  from masteryLevelOf_Inr_complete[OF m auth] obtain revision where
    rev: "kv_get st (revisionId req) = Some revision" and own: "getProp revision ''user_id'' = JStr uid"
    by blast
  let ?pid = "progressId_of uid revision"
  let ?existing = "case (if ?pid = revisionId req
                     then Some (completedRevision revision (recallScore req) t1)
                     else kv_get st ?pid) of None \<Rightarrow> [] | Some p \<Rightarrow> p"
  have c: "calculateMasteryLevel ?existing (getProp revision ''revision_day'') (recallScore req)
             = ''mastered''"
    using m by (simp add: masteryLevelOf_complete[OF auth rev own])
  from mastered_only_if[OF c] have day: "getProp revision ''revision_day'' = num 7"
    and ge: "numGreaterEq (dayScore ?existing ''day7_score'') (Fin 80)" by simp_all
  show "\<exists>revision existingProgress.
                kv_get st (revisionId req) = Some revision
              \<and> getProp revision ''revision_day'' = num 7
              \<and> kv_get st (progressId_of uid revision) = Some existingProgress
              \<and> map_of existingProgress ''day7_score'' \<noteq> None
              \<and> numGreaterEq (dayScore existingProgress ''day7_score'') (Fin 80)"
  proof (cases "?pid = revisionId req")
    case True
    have "dayScore (completedRevision revision (recallScore req) t1) ''day7_score''
            = dayScore revision ''day7_score''"
      by (simp add: dayScore_def getProp_completedRevision)
    with ge True have "numGreaterEq (dayScore revision ''day7_score'') (Fin 80)" by simp
    with rev day True dayScore_stored show ?thesis by auto
  next
    case False
    with ge have g: "numGreaterEq (dayScore (case kv_get st ?pid of None \<Rightarrow> [] | Some p \<Rightarrow> p)
                        ''day7_score'') (Fin 80)" by simp
    then obtain p where p: "kv_get st ?pid = Some p"
      by (cases "kv_get st ?pid")
         (auto simp: dayScore_def getProp_def nullish_def numGreaterEq_def)
    with g rev day dayScore_stored show ?thesis by auto
  qed
next
  assume "getProp (updateProgress existingProgress uid revision score t) ''day7_score''
           \<noteq> getProp existingProgress ''day7_score''"
  then show "toString (getProp revision ''revision_day'') = ''7''"
    by (auto simp: getProp_updateProgress split: if_splits)
qed

theorem first_completion_is_weak_witness:
  "authenticate demo_getUser (authorization (demo_complete 7 (num 85))) = Some ''u1''
   \<and> kv_get demo_scheduled (revisionId (demo_complete 7 (num 85)))
       = Some (newRevision ''u1'' demo_diagnostic 7 1794304320000)
   \<and> getProp (newRevision ''u1'' demo_diagnostic 7 1794304320000) ''user_id'' = JStr ''u1''
   \<and> kv_get demo_scheduled
        (progressId_of ''u1'' (newRevision ''u1'' demo_diagnostic 7 1794304320000)) = None
   \<and> masteryLevelOf (fst (revisions_complete demo_getUser demo_scheduled
                            (demo_complete 7 (num 85)) 1794304320000 1794304320001))
       = Inr (JStr ''weak'')
   \<and> masteryLevelOf (fst (revisions_complete demo_getUser
                            (snd (revisions_complete demo_getUser demo_scheduled
                                    (demo_complete 7 (num 85)) 1794304320000 1794304320001))
                            (demo_complete 7 (num 6)) 1794304330000 1794304330001))
       = Inr (JStr ''mastered'')"
proof -
  have none: "kv_get demo_scheduled
        (progressId_of ''u1'' (newRevision ''u1'' demo_diagnostic 7 1794304320000)) = None"
    by (rule demo_no_progress)
  have first: "masteryLevelOf (fst (revisions_complete demo_getUser demo_scheduled
                            (demo_complete 7 (num 85)) 1794304320000 1794304320001))
       = Inr (JStr ''weak'')"
    using first_completion_is_weak[OF demo_auth[of 7 "num 85"], where st = demo_scheduled
        and ?t1.0 = 1794304320000 and ?t2.0 = 1794304320001,
        THEN conjunct2, THEN conjunct1, rule_format,
        of "newRevision ''u1'' demo_diagnostic 7 1794304320000"]
      demo_revision(3) demo_owner none
    by simp
  let ?rev = "newRevision ''u1'' demo_diagnostic 7 1794304320000"
  let ?st1 = "snd (revisions_complete demo_getUser demo_scheduled
                     (demo_complete 7 (num 85)) 1794304320000 1794304320001)"
  have ne: "progressId_of ''u1'' ?rev \<noteq> revisionId (demo_complete 7 score)" for score
    by (simp add: progressId_of_def demo_complete_def revisionId_of_def)
  have st1: "?st1 = kv_set (kv_set demo_scheduled (revisionId (demo_complete 7 (num 85)))
                              (completedRevision ?rev (num 85) 1794304320000))
                      (progressId_of ''u1'' ?rev)
                      (updateProgress [] ''u1'' ?rev (num 85) 1794304320001)"
    by (simp add: revisions_complete_ok[OF demo_auth demo_revision(3) demo_owner] Let_def
        kv_get_set ne demo_no_progress demo_recallScore)
  have rev2: "kv_get ?st1 (revisionId (demo_complete 7 (num 6)))
                = Some (completedRevision ?rev (num 85) 1794304320000)"
    unfolding st1 using ne[of "num 6"] by (simp add: kv_get_set demo_complete_def)
  have own2: "getProp (completedRevision ?rev (num 85) 1794304320000) ''user_id'' = JStr ''u1''"
    by (simp add: getProp_completedRevision demo_owner)
  have pid2: "progressId_of ''u1'' (completedRevision ?rev (num 85) 1794304320000)
                = progressId_of ''u1'' ?rev"
    by (simp add: progressId_of_def getProp_completedRevision)
  have prog: "kv_get ?st1 (progressId_of ''u1'' ?rev)
                = Some (updateProgress [] ''u1'' ?rev (num 85) 1794304320001)"
    unfolding st1 by (simp add: kv_get_set)
  have day7: "getProp ?rev ''revision_day'' = num 7"
    by (simp add: newRevision_def getProp_def)
  have second: "masteryLevelOf (fst (revisions_complete demo_getUser ?st1
                            (demo_complete 7 (num 6)) 1794304330000 1794304330001))
       = Inr (JStr ''mastered'')"
    unfolding masteryLevelOf_complete[OF demo_auth rev2 own2] pid2
    using ne[of "num 6"]
    by (simp add: prog calculateMasteryLevel_def getProp_updateProgress getProp_completedRevision
        day7 ratToString_days jsOr_def jsGreaterEq_num)
  show ?thesis
    using demo_auth demo_revision(3) demo_owner none first second by simp
qed

section \<open>Properties of submitting a diagnostic\<close>

lemma scheduleRevisions_get:
  assumes "\<forall>day \<in> set revisionDays.
             \<bar>UTC tza (LocalTime tza now + day * msPerDay)\<bar> \<le> 8640000000000000"
  shows "kv_get (snd (scheduleRevisions tza uid diagnostic now revisionDays st)) k =
     (if k = revisionId_of uid diagnostic 7 then
        Some (newRevision uid diagnostic 7 (UTC tza (LocalTime tza now + 7 * msPerDay)))
      else if k = revisionId_of uid diagnostic 3 then
        Some (newRevision uid diagnostic 3 (UTC tza (LocalTime tza now + 3 * msPerDay)))
      else if k = revisionId_of uid diagnostic 1 then
        Some (newRevision uid diagnostic 1 (UTC tza (LocalTime tza now + 1 * msPerDay)))
      else kv_get st k)"
  by (simp add: scheduleRevisions_revisionDays[OF assms] kv_get_set)

lemma determineWeakConcepts_get:
  "kv_get (determineWeakConcepts st uid diagnostic score conf t) k =
     (if (numLess score (Fin 70) \<or> jsLess conf 3) \<and> k = weakConceptId_of uid diagnostic
      then Some (weakConcept uid diagnostic score conf t)
      else kv_get st k)"
  by (simp add: determineWeakConcepts_def kv_get_set)

lemma diagnostic_submit_ok:
  assumes "authenticate getUser (authorization req) = Some uid"
      and "kv_get st (diagnosticId req) = Some diagnostic"
      and "getProp diagnostic ''user_id'' = JStr uid"
      and "getProp diagnostic ''questions'' = JArr questions"
      and "length questions = n"
      and "countCorrect (answers req) questions 0 0 = Some correct"
      and "\<forall>day \<in> set revisionDays.
             \<bar>UTC tza (LocalTime tza (t_now clk) + day * msPerDay)\<bar> \<le> 8640000000000000"
  shows "diagnostic_submit tza getUser st req clk =
     (Inr [(''result'', JObj (diagnosticResult req diagnostic correct n (t_completed_at clk)))],
      snd (scheduleRevisions tza uid diagnostic (t_now clk) revisionDays
             (determineWeakConcepts
                (kv_set
                   (kv_set st (diagnosticId req)
                      (assign diagnostic
                         [(''completed'', JBool True),
                          (''result'',
                           JObj (diagnosticResult req diagnostic correct n (t_completed_at clk)))]))
                   (resultId_of uid (t_result_id clk))
                   (diagnosticResult req diagnostic correct n (t_completed_at clk)))
                uid diagnostic (scoreOf correct n) (confidence req) (t_created_at clk))))"
  using assms
  by (auto simp: diagnostic_submit_def Let_def scheduleRevisions_revisionDays)

lemma weak_not_revision: "weakConceptId_of uid diagnostic \<noteq> revisionId_of uid' diagnostic' day"
  by (simp add: weakConceptId_of_def revisionId_of_def)

lemma weak_not_result: "weakConceptId_of uid diagnostic \<noteq> resultId_of uid' t"
  by (simp add: weakConceptId_of_def resultId_of_def)

lemma result_not_revision: "resultId_of uid t \<noteq> revisionId_of uid' diagnostic day"
  by (simp add: resultId_of_def revisionId_of_def)

lemma numLess_Fin: "numLess (Fin a) (Fin b) = (a < b)"
  by simp

lemma jsLess_num: "jsLess (num a) k = (a < k)"
  by (simp add: jsLess_def)

text \<open>The scenario: the two submissions evaluated.\<close>

lemmas date_eval = toISOString_def isoDate_def isoYear_def YearFromTime_def YearFromDay_def
  DayFromYear_def Day_def msPerDay_def MonthFromTime_def DateFromTime_def DayWithinYear_def
  InLeapYear_def DaysInYear_def HourFromTime_def MinFromTime_def SecFromTime_def msFromTime_def
  pad2_def pad3_def pad4_def pad6_def digitChar_def Let_def

lemma demo_submit_auth: "authenticate demo_getUser (authorization (demo_submit did)) = Some ''u1''"
  by (simp add: demo_submit_def authenticate_def accessToken_def demo_getUser_def)

lemma demo_questions:
  "getProp demo_diagnostic ''questions'' = JArr (map demo_question [0, 1, 2, 3, 0, 1, 2, 3])"
  "getProp demo_diagnostic2 ''questions'' = JArr (map demo_question [3, 2, 1, 0, 3, 2, 1, 0])"
  "getProp demo_diagnostic ''user_id'' = JStr ''u1''"
  "getProp demo_diagnostic2 ''user_id'' = JStr ''u1''"
  "getProp demo_diagnostic ''topic'' = JStr ''Thermodynamics''"
  "getProp demo_diagnostic2 ''topic'' = JStr ''Thermodynamics''"
  by (simp_all add: demo_diagnostic_def demo_diagnostic2_def getProp_def)

lemma demo_graded:
  "countCorrect (answers (demo_submit did)) (map demo_question [0, 1, 2, 3, 0, 1, 2, 3]) 0 0 = Some 5"
  "countCorrect (answers (demo_submit did)) (map demo_question [3, 2, 1, 0, 3, 2, 1, 0]) 0 0 = Some 1"
  by (simp_all add: demo_submit_def demo_question_def getProp_def)

lemma demo_ids:
  "revisionId_of ''u1'' demo_diagnostic day = ''revision:u1:Thermodynamics:day'' @ ratToString (of_int day)"
  "revisionId_of ''u1'' demo_diagnostic2 day = ''revision:u1:Thermodynamics:day'' @ ratToString (of_int day)"
  "weakConceptId_of ''u1'' demo_diagnostic = ''weak:u1:Thermodynamics''"
  "weakConceptId_of ''u1'' demo_diagnostic2 = ''weak:u1:Thermodynamics''"
  by (simp_all add: revisionId_of_def weakConceptId_of_def demo_questions)

lemma kv_set_fst:
  "map fst (kv_set st k v) = (if k \<in> set (map fst st) then map fst st else map fst st @ [k])"
  by (simp add: kv_set_def update_keys)

lemma length_kv_getByPrefix:
  "length (kv_getByPrefix st p) = length (filter (\<lambda>k. take (length p) k = p) (map fst st))"
  by (induction st) (auto simp: kv_getByPrefix_def)

lemma demo_submit_ok1:
  "diagnostic_submit zoneUTC demo_getUser demo_store (demo_submit ''diagnostic:u1:1793699000000'')
     (demo_clock demo_now) =
   (Inr [(''result'', JObj (diagnosticResult (demo_submit ''diagnostic:u1:1793699000000'')
                              demo_diagnostic 5 8 demo_now))],
    snd (scheduleRevisions zoneUTC ''u1'' demo_diagnostic (demo_now + 3) revisionDays
      (determineWeakConcepts
         (kv_set
            (kv_set demo_store ''diagnostic:u1:1793699000000''
               (assign demo_diagnostic
                  [(''completed'', JBool True),
                   (''result'',
                    JObj (diagnosticResult (demo_submit ''diagnostic:u1:1793699000000'')
                            demo_diagnostic 5 8 demo_now))]))
            (resultId_of ''u1'' (demo_now + 1))
            (diagnosticResult (demo_submit ''diagnostic:u1:1793699000000'') demo_diagnostic 5 8
               demo_now))
         ''u1'' demo_diagnostic (scoreOf 5 8) (num 2) (demo_now + 2))))"
proof -
  have d: "kv_get demo_store (diagnosticId (demo_submit ''diagnostic:u1:1793699000000''))
             = Some demo_diagnostic"
    by (simp add: demo_store_def demo_submit_def kv_get_def)
  have len: "length (map demo_question [0, 1, 2, 3, 0, 1, 2, 3]) = 8" by simp
  have v: "\<forall>day \<in> set revisionDays.
      \<bar>UTC zoneUTC (LocalTime zoneUTC (t_now (demo_clock demo_now)) + day * msPerDay)\<bar>
        \<le> 8640000000000000"
    by (rule zoneUTC_valid) (simp_all add: demo_clock_def demo_now_def msPerDay_def)
  show ?thesis
    unfolding diagnostic_submit_ok[OF demo_submit_auth d demo_questions(3) demo_questions(1) len
        demo_graded(1) v]
    by (simp add: demo_clock_def demo_submit_def)
qed

lemma demo_weak1: "numLess (scoreOf 5 8) (Fin 70) \<or> jsLess (num 2) 3"
  by (simp add: jsLess_def)

lemma demo_resultId:
  "resultId_of ''u1'' (demo_now + 1) = ''result:u1:1793699520001''"
  "resultId_of ''u1'' (demo_later + 1) = ''result:u1:1793785920001''"
  by (simp_all add: resultId_of_def demo_now_def demo_later_def ratToString_def digitsOf.simps
      digitChar_def)

lemma demo_valid:
  "\<forall>day \<in> set revisionDays.
     \<bar>UTC zoneUTC (LocalTime zoneUTC (demo_now + 3) + day * msPerDay)\<bar> \<le> 8640000000000000"
  "\<forall>day \<in> set revisionDays.
     \<bar>UTC zoneUTC (LocalTime zoneUTC (demo_later + 3) + day * msPerDay)\<bar> \<le> 8640000000000000"
proof -
  show "\<forall>day \<in> set revisionDays.
     \<bar>UTC zoneUTC (LocalTime zoneUTC (demo_now + 3) + day * msPerDay)\<bar> \<le> 8640000000000000"
    by (rule zoneUTC_valid) (simp_all add: demo_now_def msPerDay_def)
  show "\<forall>day \<in> set revisionDays.
     \<bar>UTC zoneUTC (LocalTime zoneUTC (demo_later + 3) + day * msPerDay)\<bar> \<le> 8640000000000000"
    by (rule zoneUTC_valid) (simp_all add: demo_later_def msPerDay_def)
qed

lemma demo_after1_keys:
  "map fst demo_after1 =
     [''diagnostic:u1:1793699000000'', ''diagnostic:u1:1793785000000'',
      ''result:u1:1793699520001'', ''weak:u1:Thermodynamics'',
      ''revision:u1:Thermodynamics:day1'', ''revision:u1:Thermodynamics:day3'',
      ''revision:u1:Thermodynamics:day7'']"
  unfolding demo_after1_def demo_submit_ok1 snd_conv
    scheduleRevisions_revisionDays[OF demo_valid(1)]
  by (simp add: kv_set_fst determineWeakConcepts_def demo_weak1 demo_ids demo_resultId
      demo_store_def ratToString_days)

lemma demo_store_get:
  "kv_get demo_store ''diagnostic:u1:1793785000000'' = Some demo_diagnostic2"
  by (simp add: demo_store_def kv_get_def)

lemma demo_after1_get:
  "kv_get demo_after1 (revisionId_of ''u1'' demo_diagnostic 1)
     = Some (newRevision ''u1'' demo_diagnostic 1 (demo_now + 3 + 1 * msPerDay))"
  "kv_get demo_after1 ''diagnostic:u1:1793785000000'' = Some demo_diagnostic2"
  unfolding demo_after1_def demo_submit_ok1 snd_conv
  by (simp_all add: scheduleRevisions_get[OF demo_valid(1)] determineWeakConcepts_get
      kv_get_set demo_ids demo_resultId demo_store_get ratToString_days zoneUTC_time)

lemma demo_submit_ok2:
  "diagnostic_submit zoneUTC demo_getUser demo_after1 (demo_submit ''diagnostic:u1:1793785000000'')
     (demo_clock demo_later) =
   (Inr [(''result'', JObj (diagnosticResult (demo_submit ''diagnostic:u1:1793785000000'')
                              demo_diagnostic2 1 8 demo_later))],
    snd (scheduleRevisions zoneUTC ''u1'' demo_diagnostic2 (demo_later + 3) revisionDays
      (determineWeakConcepts
         (kv_set
            (kv_set demo_after1 ''diagnostic:u1:1793785000000''
               (assign demo_diagnostic2
                  [(''completed'', JBool True),
                   (''result'',
                    JObj (diagnosticResult (demo_submit ''diagnostic:u1:1793785000000'')
                            demo_diagnostic2 1 8 demo_later))]))
            (resultId_of ''u1'' (demo_later + 1))
            (diagnosticResult (demo_submit ''diagnostic:u1:1793785000000'') demo_diagnostic2 1 8
               demo_later))
         ''u1'' demo_diagnostic2 (scoreOf 1 8) (num 2) (demo_later + 2))))"
proof -
  have d: "kv_get demo_after1 (diagnosticId (demo_submit ''diagnostic:u1:1793785000000''))
             = Some demo_diagnostic2"
    by (simp add: demo_submit_def demo_after1_get)
  have len: "length (map demo_question [3, 2, 1, 0, 3, 2, 1, 0]) = 8" by simp
  have v: "\<forall>day \<in> set revisionDays.
      \<bar>UTC zoneUTC (LocalTime zoneUTC (t_now (demo_clock demo_later)) + day * msPerDay)\<bar>
        \<le> 8640000000000000"
    by (rule zoneUTC_valid) (simp_all add: demo_clock_def demo_later_def msPerDay_def)
  show ?thesis
    unfolding diagnostic_submit_ok[OF demo_submit_auth d demo_questions(4) demo_questions(2) len
        demo_graded(2) v]
    by (simp add: demo_clock_def demo_submit_def)
qed

lemma demo_after2_get:
  "kv_get demo_after2 (revisionId_of ''u1'' demo_diagnostic 1)
     = Some (newRevision ''u1'' demo_diagnostic2 1 (demo_later + 3 + 1 * msPerDay))"
  unfolding demo_after2_def demo_submit_ok2 snd_conv
  by (simp add: scheduleRevisions_get[OF demo_valid(2)] demo_ids ratToString_days zoneUTC_time)

lemma demo_after2_keys:
  "map fst demo_after2 =
     [''diagnostic:u1:1793699000000'', ''diagnostic:u1:1793785000000'',
      ''result:u1:1793699520001'', ''weak:u1:Thermodynamics'',
      ''revision:u1:Thermodynamics:day1'', ''revision:u1:Thermodynamics:day3'',
      ''revision:u1:Thermodynamics:day7'', ''result:u1:1793785920001'']"
  unfolding demo_after2_def demo_submit_ok2 snd_conv
    scheduleRevisions_revisionDays[OF demo_valid(2)]
  by (simp add: kv_set_fst determineWeakConcepts_def jsLess_def demo_ids demo_resultId
      demo_after1_keys ratToString_days)

lemma demo_scheduled_dates:
  "toISOString (demo_now + 3 + msPerDay) = ''2026-11-04T09:52:00.003Z''"
  "toISOString (demo_later + 3 + msPerDay) = ''2026-11-05T09:52:00.003Z''"
  by (simp add: demo_now_def date_eval, simp add: demo_later_def date_eval)

lemma getProp_newRevision:
  "getProp (newRevision uid diagnostic day t) ''revision_day'' = num (of_int day)"
  "getProp (newRevision uid diagnostic day t) ''completed'' = JBool False"
  "getProp (newRevision uid diagnostic day t) ''scheduled_date'' = JStr (toISOString t)"
  "getProp (newRevision uid diagnostic day t) ''user_id'' = JStr uid"
  "getProp (newRevision uid diagnostic day t) ''topic'' = getProp diagnostic ''topic''"
  "getProp (newRevision uid diagnostic day t) ''subject'' = getProp diagnostic ''subject''"
  by (simp_all add: newRevision_def getProp_def)

lemma scheduleRevisions_keys:
  assumes "\<forall>day \<in> set revisionDays.
             \<bar>UTC tza (LocalTime tza now + day * msPerDay)\<bar> \<le> 8640000000000000"
  shows "set (map fst (snd (scheduleRevisions tza uid diagnostic now revisionDays st))) =
           set (map fst st) \<union> {revisionId_of uid diagnostic 1, revisionId_of uid diagnostic 3,
                                 revisionId_of uid diagnostic 7}"
  by (simp add: scheduleRevisions_revisionDays[OF assms] kv_set_keys insert_commute
      del: set_map)

lemma revisionId_of_topic:
  assumes "toString (getProp diagnostic2 ''topic'') = toString (getProp diagnostic1 ''topic'')"
  shows "revisionId_of uid diagnostic2 day = revisionId_of uid diagnostic1 day"
  using assms by (simp add: revisionId_of_def)

lemma scheduleRevisions_again_fst:
  assumes v1: "\<forall>day \<in> set revisionDays.
             \<bar>UTC tza (LocalTime tza now1 + day * msPerDay)\<bar> \<le> 8640000000000000"
      and v2: "\<forall>day \<in> set revisionDays.
             \<bar>UTC tza (LocalTime tza now2 + day * msPerDay)\<bar> \<le> 8640000000000000"
      and topic: "toString (getProp diagnostic2 ''topic'') = toString (getProp diagnostic1 ''topic'')"
  shows "map fst (snd (scheduleRevisions tza uid diagnostic2 now2 revisionDays
                        (snd (scheduleRevisions tza uid diagnostic1 now1 revisionDays st))))
       = map fst (snd (scheduleRevisions tza uid diagnostic1 now1 revisionDays st))"
proof -
  let ?st1 = "snd (scheduleRevisions tza uid diagnostic1 now1 revisionDays st)"
  have k: "revisionId_of uid diagnostic1 1 \<in> set (map fst ?st1)"
    "revisionId_of uid diagnostic1 3 \<in> set (map fst ?st1)"
    "revisionId_of uid diagnostic1 7 \<in> set (map fst ?st1)"
    unfolding scheduleRevisions_keys[OF v1] by simp_all
  show ?thesis
    unfolding scheduleRevisions_revisionDays[OF v2, of uid diagnostic2 ?st1] snd_conv
      revisionId_of_topic[OF topic]
    using k by (simp add: kv_set_fst)
qed

lemma demo_eastern_times:
  "LocalTime demo_eastern demo_autumn = 1793433600000"
  "UTC demo_eastern 1793520000000 = 1793538000000"
  "UTC demo_eastern 1793692800000 = 1793710800000"
  "UTC demo_eastern 1794038400000 = 1794056400000"
  "LocalTime demo_eastern 1793538000000 = 1793520000000"
  "LocalTime demo_eastern demo_spring = 1804905000000"
  "UTC demo_eastern 1804991400000 = 1805009400000"
  "UTC demo_eastern 1805164200000 = 1805178600000"
  "UTC demo_eastern 1805509800000 = 1805524200000"
  "LocalTime demo_eastern 1805009400000 = 1804995000000"
  by (simp_all add: LocalTime_def UTC_def demo_eastern_def demo_autumn_def demo_spring_def)

lemma demo_eastern_valid:
  "\<forall>day \<in> set revisionDays.
     \<bar>UTC demo_eastern (LocalTime demo_eastern demo_autumn + day * msPerDay)\<bar>
       \<le> 8640000000000000"
  "\<forall>day \<in> set revisionDays.
     \<bar>UTC demo_eastern (LocalTime demo_eastern demo_spring + day * msPerDay)\<bar>
       \<le> 8640000000000000"
  by (simp_all add: revisionDays_def demo_eastern_times msPerDay_def)

lemma demo_eastern_strings:
  "toISOString demo_autumn = ''2026-10-31T12:00:00.000Z''"
  "toISOString 1793538000000 = ''2026-11-01T13:00:00.000Z''"
  "toISOString demo_spring = ''2027-03-13T07:30:00.000Z''"
  "toISOString 1805009400000 = ''2027-03-14T07:30:00.000Z''"
  by (simp add: demo_autumn_def date_eval, simp add: date_eval,
      simp add: demo_spring_def date_eval, simp add: date_eval)

lemma demo_eastern_clock:
  "HourFromTime 1793433600000 = 8" "MinFromTime 1793433600000 = 0"
  "HourFromTime 1793520000000 = 8" "MinFromTime 1793520000000 = 0"
  "HourFromTime 1804905000000 = 2" "MinFromTime 1804905000000 = 30"
  "HourFromTime 1804995000000 = 3" "MinFromTime 1804995000000 = 30"
  "TimeWithinDay 1804905000000 = 9000000" "TimeWithinDay 1804995000000 = 12600000"
  "Day 1804905000000 = 20890" "Day 1804995000000 = 20891"
  by (simp_all add: HourFromTime_def MinFromTime_def TimeWithinDay_def Day_def msPerDay_def)

text \<open>
  C2, as the specification states it, fails on a runtime whose zone has daylight saving
  time, since \<^verbatim>\<open>setDate\<close> works on the local date and not every local time exists. In
  US Eastern time a diagnostic is graded on 13 March 2027 at 02:30 local time (07:30
  UTC). The next day the clocks go from 02:00 on to 03:00, so that 02:30 does not exist
  on 14 March: the day-1 revision is scheduled for 07:30 UTC on 14 March, which is 03:30
  local time. The date is the next one, the time of day is not the same.
\<close>

theorem scheduled_time_of_day_counterexample:
  "toISOString demo_spring = ''2027-03-13T07:30:00.000Z''
   \<and> kv_getProp (snd (scheduleRevisions demo_eastern ''u1'' demo_diagnostic demo_spring
                        revisionDays []))
        (revisionId_of ''u1'' demo_diagnostic 1) ''scheduled_date''
       = Some (JStr ''2027-03-14T07:30:00.000Z'')
   \<and> toISOString 1805009400000 = ''2027-03-14T07:30:00.000Z''
   \<and> HourFromTime (LocalTime demo_eastern demo_spring) = 2
   \<and> MinFromTime (LocalTime demo_eastern demo_spring) = 30
   \<and> HourFromTime (LocalTime demo_eastern 1805009400000) = 3
   \<and> MinFromTime (LocalTime demo_eastern 1805009400000) = 30
   \<and> Day (LocalTime demo_eastern 1805009400000) = Day (LocalTime demo_eastern demo_spring) + 1
   \<and> TimeWithinDay (LocalTime demo_eastern 1805009400000)
       \<noteq> TimeWithinDay (LocalTime demo_eastern demo_spring)"
proof -
  have "kv_get (snd (scheduleRevisions demo_eastern ''u1'' demo_diagnostic demo_spring
                       revisionDays []))
          (revisionId_of ''u1'' demo_diagnostic 1)
        = Some (newRevision ''u1'' demo_diagnostic 1 1805009400000)"
    by (simp add: scheduleRevisions_get[OF demo_eastern_valid(2)] demo_eastern_times
        msPerDay_def revisionId_of_distinct)
  then have "kv_getProp (snd (scheduleRevisions demo_eastern ''u1'' demo_diagnostic demo_spring
                        revisionDays []))
        (revisionId_of ''u1'' demo_diagnostic 1) ''scheduled_date''
       = Some (JStr ''2027-03-14T07:30:00.000Z'')"
    by (simp add: kv_getProp_def getProp_newRevision demo_eastern_strings)
  then show ?thesis
    by (simp add: demo_eastern_strings demo_eastern_times demo_eastern_clock)
qed

text \<open>
  C2, amended. For every zone and every anchor time \<open>now\<close> whose three scheduled dates are
  valid dates, the scheduling loop of \<^verbatim>\<open>POST /diagnostic/submit\<close> writes exactly three
  revision records, under three different keys, one for each of the days 1, 3 and 7: the
  record of day \<open>d\<close> has \<open>revision_day = d\<close>, \<open>completed = false\<close> and as
  \<open>scheduled_date\<close> the ISO string of what
  \<^verbatim>\<open>scheduledDate.setDate(scheduledDate.getDate() + d)\<close> computes. That is the local time
  of \<open>now\<close> moved on by \<open>d\<close> days, the local day number grown by \<open>d\<close> and the time
  within the day kept, and read as a local time. Whenever that local time exists in the
  zone (reading it and looking at the clock again gives it back), the scheduled date has
  the local date of \<open>now\<close> plus \<open>d\<close> days and its local time of day; where a clock
  change skips it, it need not, as above. The time that elapses from \<open>now\<close> to the scheduled date is
  \<open>d\<close> times 24 hours plus what the offset of the zone has changed by, so it is not
  fixed by \<open>d\<close>. The keys of the store afterwards are the old ones and these three, and
  every other key holds what it held.
\<close>

theorem scheduleRevisions_three:
  assumes valid: "\<forall>day \<in> set revisionDays.
             \<bar>UTC tza (LocalTime tza now + day * msPerDay)\<bar> \<le> 8640000000000000"
  shows "scheduleRevisions tza uid diagnostic now revisionDays st =
     (None,
      kv_set
        (kv_set
          (kv_set st (revisionId_of uid diagnostic 1)
             (newRevision uid diagnostic 1 (UTC tza (LocalTime tza now + 1 * msPerDay))))
          (revisionId_of uid diagnostic 3)
          (newRevision uid diagnostic 3 (UTC tza (LocalTime tza now + 3 * msPerDay))))
        (revisionId_of uid diagnostic 7)
        (newRevision uid diagnostic 7 (UTC tza (LocalTime tza now + 7 * msPerDay))))
   \<and> distinct [revisionId_of uid diagnostic 1, revisionId_of uid diagnostic 3,
                revisionId_of uid diagnostic 7]
   \<and> (\<forall>day \<in> set revisionDays.
          setDate tza now (getDate tza now + day)
            = Some (UTC tza (LocalTime tza now + day * msPerDay))
        \<and> kv_get (snd (scheduleRevisions tza uid diagnostic now revisionDays st))
              (revisionId_of uid diagnostic day)
            = Some (newRevision uid diagnostic day (UTC tza (LocalTime tza now + day * msPerDay)))
        \<and> getProp (newRevision uid diagnostic day (UTC tza (LocalTime tza now + day * msPerDay)))
              ''revision_day''
            = num (of_int day)
        \<and> getProp (newRevision uid diagnostic day (UTC tza (LocalTime tza now + day * msPerDay)))
              ''completed''
            = JBool False
        \<and> getProp (newRevision uid diagnostic day (UTC tza (LocalTime tza now + day * msPerDay)))
              ''scheduled_date''
            = JStr (toISOString (UTC tza (LocalTime tza now + day * msPerDay)))
        \<and> Day (LocalTime tza now + day * msPerDay) = Day (LocalTime tza now) + day
        \<and> TimeWithinDay (LocalTime tza now + day * msPerDay) = TimeWithinDay (LocalTime tza now)
        \<and> (LocalTime tza (UTC tza (LocalTime tza now + day * msPerDay))
              = LocalTime tza now + day * msPerDay
            \<longrightarrow> Day (LocalTime tza (UTC tza (LocalTime tza now + day * msPerDay)))
                  = Day (LocalTime tza now) + day
              \<and> TimeWithinDay (LocalTime tza (UTC tza (LocalTime tza now + day * msPerDay)))
                  = TimeWithinDay (LocalTime tza now))
        \<and> UTC tza (LocalTime tza now + day * msPerDay)
            = now + day * msPerDay
                + (tza now True - tza (LocalTime tza now + day * msPerDay) False))
   \<and> set (map fst (snd (scheduleRevisions tza uid diagnostic now revisionDays st))) =
         set (map fst st) \<union> {revisionId_of uid diagnostic 1, revisionId_of uid diagnostic 3,
                               revisionId_of uid diagnostic 7}
   \<and> (\<forall>k. k \<notin> {revisionId_of uid diagnostic 1, revisionId_of uid diagnostic 3,
                 revisionId_of uid diagnostic 7}
         \<longrightarrow> kv_get (snd (scheduleRevisions tza uid diagnostic now revisionDays st)) k
             = kv_get st k)"
proof (intro conjI ballI allI impI)
  show "scheduleRevisions tza uid diagnostic now revisionDays st =
     (None,
      kv_set
        (kv_set
          (kv_set st (revisionId_of uid diagnostic 1)
             (newRevision uid diagnostic 1 (UTC tza (LocalTime tza now + 1 * msPerDay))))
          (revisionId_of uid diagnostic 3)
          (newRevision uid diagnostic 3 (UTC tza (LocalTime tza now + 3 * msPerDay))))
        (revisionId_of uid diagnostic 7)
        (newRevision uid diagnostic 7 (UTC tza (LocalTime tza now + 7 * msPerDay))))"
    by (rule scheduleRevisions_revisionDays[OF valid])
  show "distinct [revisionId_of uid diagnostic 1, revisionId_of uid diagnostic 3,
                revisionId_of uid diagnostic 7]"
    by (simp add: revisionId_of_distinct)
  show "set (map fst (snd (scheduleRevisions tza uid diagnostic now revisionDays st))) =
         set (map fst st) \<union> {revisionId_of uid diagnostic 1, revisionId_of uid diagnostic 3,
                               revisionId_of uid diagnostic 7}"
    by (rule scheduleRevisions_keys[OF valid])
next
  fix k
  assume "k \<notin> {revisionId_of uid diagnostic 1, revisionId_of uid diagnostic 3,
                 revisionId_of uid diagnostic 7}"
  then show "kv_get (snd (scheduleRevisions tza uid diagnostic now revisionDays st)) k
             = kv_get st k"
    by (simp add: scheduleRevisions_get[OF valid])
next
  fix day
  assume d: "day \<in> set revisionDays"
  then have d': "day = 1 \<or> day = 3 \<or> day = 7" by (auto simp: revisionDays_def)
  have "\<bar>UTC tza (LocalTime tza now + day * msPerDay)\<bar> \<le> 8640000000000000"
    using valid d by blast
  then show "setDate tza now (getDate tza now + day)
               = Some (UTC tza (LocalTime tza now + day * msPerDay))"
    by (simp add: setDate_getDate TimeClip_valid)
  show "kv_get (snd (scheduleRevisions tza uid diagnostic now revisionDays st))
              (revisionId_of uid diagnostic day)
            = Some (newRevision uid diagnostic day (UTC tza (LocalTime tza now + day * msPerDay)))"
    using d' by (auto simp: scheduleRevisions_get[OF valid] revisionId_of_distinct
        revisionId_of_distinct[symmetric])
  show "getProp (newRevision uid diagnostic day (UTC tza (LocalTime tza now + day * msPerDay)))
              ''revision_day''
            = num (of_int day)"
    by (rule getProp_newRevision)
  show "getProp (newRevision uid diagnostic day (UTC tza (LocalTime tza now + day * msPerDay)))
              ''completed''
            = JBool False"
    by (rule getProp_newRevision)
  show "getProp (newRevision uid diagnostic day (UTC tza (LocalTime tza now + day * msPerDay)))
              ''scheduled_date''
            = JStr (toISOString (UTC tza (LocalTime tza now + day * msPerDay)))"
    by (rule getProp_newRevision)
  show "Day (LocalTime tza now + day * msPerDay) = Day (LocalTime tza now) + day"
    by (rule Day_plus_days)
  show "TimeWithinDay (LocalTime tza now + day * msPerDay) = TimeWithinDay (LocalTime tza now)"
    by (rule TimeWithinDay_plus_days)
  show "UTC tza (LocalTime tza now + day * msPerDay)
            = now + day * msPerDay
                + (tza now True - tza (LocalTime tza now + day * msPerDay) False)"
    by (simp add: UTC_def LocalTime_def)
next
  fix day
  assume "day \<in> set revisionDays"
    and rt: "LocalTime tza (UTC tza (LocalTime tza now + day * msPerDay))
              = LocalTime tza now + day * msPerDay"
  show "Day (LocalTime tza (UTC tza (LocalTime tza now + day * msPerDay)))
                  = Day (LocalTime tza now) + day"
    unfolding rt by (rule Day_plus_days)
  show "TimeWithinDay (LocalTime tza (UTC tza (LocalTime tza now + day * msPerDay)))
                  = TimeWithinDay (LocalTime tza now)"
    unfolding rt by (rule TimeWithinDay_plus_days)
qed

theorem scheduleRevisions_three_witness:
  "\<bar>UTC demo_eastern (LocalTime demo_eastern demo_autumn + 1 * msPerDay)\<bar> \<le> 8640000000000000
   \<and> \<bar>UTC demo_eastern (LocalTime demo_eastern demo_autumn + 3 * msPerDay)\<bar> \<le> 8640000000000000
   \<and> \<bar>UTC demo_eastern (LocalTime demo_eastern demo_autumn + 7 * msPerDay)\<bar> \<le> 8640000000000000
   \<and> (1::int) \<in> set revisionDays
   \<and> toISOString demo_autumn = ''2026-10-31T12:00:00.000Z''
   \<and> UTC demo_eastern (LocalTime demo_eastern demo_autumn + 1 * msPerDay) = 1793538000000
   \<and> LocalTime demo_eastern 1793538000000 = LocalTime demo_eastern demo_autumn + 1 * msPerDay
   \<and> kv_getProp (snd (scheduleRevisions demo_eastern ''u1'' demo_diagnostic demo_autumn
                        revisionDays []))
        (revisionId_of ''u1'' demo_diagnostic 1) ''scheduled_date''
       = Some (JStr ''2026-11-01T13:00:00.000Z'')
   \<and> kv_getProp (snd (scheduleRevisions demo_eastern ''u1'' demo_diagnostic demo_autumn
                        revisionDays []))
        (revisionId_of ''u1'' demo_diagnostic 1) ''completed''
       = Some (JBool False)
   \<and> Day (LocalTime demo_eastern 1793538000000) = Day (LocalTime demo_eastern demo_autumn) + 1
   \<and> TimeWithinDay (LocalTime demo_eastern 1793538000000)
       = TimeWithinDay (LocalTime demo_eastern demo_autumn)
   \<and> HourFromTime (LocalTime demo_eastern demo_autumn) = 8
   \<and> HourFromTime (LocalTime demo_eastern 1793538000000) = 8
   \<and> 1793538000000 - demo_autumn = 25 * 3600000"
proof -
  have d: "(1::int) \<in> set revisionDays" by (simp add: revisionDays_def)
  have rt: "LocalTime demo_eastern (UTC demo_eastern (LocalTime demo_eastern demo_autumn
                + 1 * msPerDay))
              = LocalTime demo_eastern demo_autumn + 1 * msPerDay"
    by (simp add: demo_eastern_times msPerDay_def)
  note inst = scheduleRevisions_three[OF demo_eastern_valid(1), where uid = "''u1''"
        and diagnostic = demo_diagnostic and st = "[]",
        THEN conjunct2, THEN conjunct2, THEN conjunct1, rule_format, OF d]
  have stored: "kv_get (snd (scheduleRevisions demo_eastern ''u1'' demo_diagnostic demo_autumn
                       revisionDays []))
          (revisionId_of ''u1'' demo_diagnostic 1)
        = Some (newRevision ''u1'' demo_diagnostic 1 1793538000000)"
    using inst by (simp add: demo_eastern_times msPerDay_def)
  have local: "Day (LocalTime demo_eastern 1793538000000)
                 = Day (LocalTime demo_eastern demo_autumn) + 1
     \<and> TimeWithinDay (LocalTime demo_eastern 1793538000000)
         = TimeWithinDay (LocalTime demo_eastern demo_autumn)"
    using inst rt by (simp add: demo_eastern_times msPerDay_def)
  have s1: "toISOString demo_autumn = ''2026-10-31T12:00:00.000Z''"
    by (rule demo_eastern_strings)
  have s2: "UTC demo_eastern (LocalTime demo_eastern demo_autumn + 1 * msPerDay) = 1793538000000"
    by (simp add: demo_eastern_times msPerDay_def)
  have s3: "LocalTime demo_eastern 1793538000000
              = LocalTime demo_eastern demo_autumn + 1 * msPerDay"
    by (simp add: demo_eastern_times msPerDay_def)
  have s4: "kv_getProp (snd (scheduleRevisions demo_eastern ''u1'' demo_diagnostic demo_autumn
                        revisionDays []))
        (revisionId_of ''u1'' demo_diagnostic 1) ''scheduled_date''
       = Some (JStr ''2026-11-01T13:00:00.000Z'')"
    by (simp add: kv_getProp_def stored getProp_newRevision demo_eastern_strings)
  have s5: "kv_getProp (snd (scheduleRevisions demo_eastern ''u1'' demo_diagnostic demo_autumn
                        revisionDays []))
        (revisionId_of ''u1'' demo_diagnostic 1) ''completed''
       = Some (JBool False)"
    by (simp add: kv_getProp_def stored getProp_newRevision)
  have s6: "HourFromTime (LocalTime demo_eastern demo_autumn) = 8"
    "HourFromTime (LocalTime demo_eastern 1793538000000) = 8"
    by (simp_all add: demo_eastern_times demo_eastern_clock)
  have s7: "1793538000000 - demo_autumn = 25 * 3600000"
    by (simp add: demo_autumn_def)
  have s0: "\<bar>UTC demo_eastern (LocalTime demo_eastern demo_autumn + 1 * msPerDay)\<bar> \<le> 8640000000000000
     \<and> \<bar>UTC demo_eastern (LocalTime demo_eastern demo_autumn + 3 * msPerDay)\<bar> \<le> 8640000000000000
     \<and> \<bar>UTC demo_eastern (LocalTime demo_eastern demo_autumn + 7 * msPerDay)\<bar> \<le> 8640000000000000"
    using demo_eastern_valid(1) by (simp add: revisionDays_def)
  from s0 d s1 s2 s3 s4 s5 local s6 s7 show ?thesis by blast
qed

text \<open>
  C9. The block that determines weak concepts writes a weak-concept record exactly when
  \<open>score < 70\<close> or \<open>confidence < 3\<close>, and leaves the store as it is otherwise, for
  every score and confidence: so it does for (65, 5), (75, 2) and (69, 3) and does not for
  (80, 4) and for the boundary (70, 3). In a successful submission the record under the
  weak-concept key is decided this way from the computed score and the submitted
  confidence.
\<close>

theorem weak_concept_iff:
  "determineWeakConcepts st uid diagnostic (Fin score) (num conf) t =
      (if score < 70 \<or> conf < 3
       then kv_set st (weakConceptId_of uid diagnostic)
              (weakConcept uid diagnostic (Fin score) (num conf) t)
       else st)
   \<and> determineWeakConcepts st uid diagnostic (Fin 65) (num 5) t =
       kv_set st (weakConceptId_of uid diagnostic) (weakConcept uid diagnostic (Fin 65) (num 5) t)
   \<and> determineWeakConcepts st uid diagnostic (Fin 75) (num 2) t =
       kv_set st (weakConceptId_of uid diagnostic) (weakConcept uid diagnostic (Fin 75) (num 2) t)
   \<and> determineWeakConcepts st uid diagnostic (Fin 80) (num 4) t = st
   \<and> determineWeakConcepts st uid diagnostic (Fin 69) (num 3) t =
       kv_set st (weakConceptId_of uid diagnostic) (weakConcept uid diagnostic (Fin 69) (num 3) t)
   \<and> determineWeakConcepts st uid diagnostic (Fin 70) (num 3) t = st
   \<and> (authenticate getUser (authorization req) = Some uid
        \<and> kv_get st (diagnosticId req) = Some diagnostic
        \<and> getProp diagnostic ''user_id'' = JStr uid
        \<and> getProp diagnostic ''questions'' = JArr questions
        \<and> countCorrect (answers req) questions 0 0 = Some correct
        \<and> (\<forall>day \<in> set revisionDays.
              \<bar>UTC tza (LocalTime tza (t_now clk) + day * msPerDay)\<bar> \<le> 8640000000000000)
        \<and> diagnosticId req \<noteq> weakConceptId_of uid diagnostic
      \<longrightarrow> kv_get (snd (diagnostic_submit tza getUser st req clk)) (weakConceptId_of uid diagnostic)
          = (if numLess (scoreOf correct (length questions)) (Fin 70) \<or> jsLess (confidence req) 3
             then Some (weakConcept uid diagnostic (scoreOf correct (length questions))
                          (confidence req) (t_created_at clk))
             else kv_get st (weakConceptId_of uid diagnostic)))"
proof -
  have block: "determineWeakConcepts st uid diagnostic (Fin s) (num c) t =
      (if s < 70 \<or> c < 3
       then kv_set st (weakConceptId_of uid diagnostic) (weakConcept uid diagnostic (Fin s) (num c) t)
       else st)" for s c
    by (simp add: determineWeakConcepts_def jsLess_num)
  have handler: "kv_get (snd (diagnostic_submit tza getUser st req clk)) (weakConceptId_of uid diagnostic)
          = (if numLess (scoreOf correct (length questions)) (Fin 70) \<or> jsLess (confidence req) 3
             then Some (weakConcept uid diagnostic (scoreOf correct (length questions))
                          (confidence req) (t_created_at clk))
             else kv_get st (weakConceptId_of uid diagnostic))"
    if "authenticate getUser (authorization req) = Some uid
        \<and> kv_get st (diagnosticId req) = Some diagnostic
        \<and> getProp diagnostic ''user_id'' = JStr uid
        \<and> getProp diagnostic ''questions'' = JArr questions
        \<and> countCorrect (answers req) questions 0 0 = Some correct
        \<and> (\<forall>day \<in> set revisionDays.
              \<bar>UTC tza (LocalTime tza (t_now clk) + day * msPerDay)\<bar> \<le> 8640000000000000)
        \<and> diagnosticId req \<noteq> weakConceptId_of uid diagnostic"
  proof -
    from that have h: "authenticate getUser (authorization req) = Some uid"
        "kv_get st (diagnosticId req) = Some diagnostic"
        "getProp diagnostic ''user_id'' = JStr uid"
        "getProp diagnostic ''questions'' = JArr questions"
        "countCorrect (answers req) questions 0 0 = Some correct"
        "\<forall>day \<in> set revisionDays.
           \<bar>UTC tza (LocalTime tza (t_now clk) + day * msPerDay)\<bar> \<le> 8640000000000000"
      by simp_all
    note ok = diagnostic_submit_ok[OF h(1) h(2) h(3) h(4) refl h(5) h(6)]
    note v = h(6)
    from that have ne: "weakConceptId_of uid diagnostic \<noteq> diagnosticId req" by auto
    show ?thesis
      unfolding ok snd_conv
      by (simp add: scheduleRevisions_get[OF v] determineWeakConcepts_get kv_get_set
          weak_not_revision weak_not_result ne)
  qed
  show ?thesis
    using block[of score conf] block[of 65 5] block[of 75 2] block[of 80 4]
      block[of 69 3] block[of 70 3] handler
    by simp
qed

theorem weak_concept_iff_witness:
  "authenticate demo_getUser (authorization (demo_submit ''diagnostic:u1:1793699000000''))
     = Some ''u1''
   \<and> kv_get demo_store (diagnosticId (demo_submit ''diagnostic:u1:1793699000000''))
       = Some demo_diagnostic
   \<and> getProp demo_diagnostic ''user_id'' = JStr ''u1''
   \<and> getProp demo_diagnostic ''questions'' = JArr (map demo_question [0, 1, 2, 3, 0, 1, 2, 3])
   \<and> countCorrect (answers (demo_submit ''diagnostic:u1:1793699000000''))
         (map demo_question [0, 1, 2, 3, 0, 1, 2, 3]) 0 0 = Some 5
   \<and> \<bar>UTC zoneUTC (LocalTime zoneUTC (t_now (demo_clock demo_now)) + 1 * msPerDay)\<bar> \<le> 8640000000000000
   \<and> \<bar>UTC zoneUTC (LocalTime zoneUTC (t_now (demo_clock demo_now)) + 3 * msPerDay)\<bar> \<le> 8640000000000000
   \<and> \<bar>UTC zoneUTC (LocalTime zoneUTC (t_now (demo_clock demo_now)) + 7 * msPerDay)\<bar> \<le> 8640000000000000
   \<and> diagnosticId (demo_submit ''diagnostic:u1:1793699000000'')
       \<noteq> weakConceptId_of ''u1'' demo_diagnostic
   \<and> scoreOf 5 8 = Fin (125 / 2)
   \<and> kv_get demo_after1 (weakConceptId_of ''u1'' demo_diagnostic)
       = Some (weakConcept ''u1'' demo_diagnostic (Fin (125 / 2)) (num 2) (demo_now + 2))"
proof -
  have d: "kv_get demo_store (diagnosticId (demo_submit ''diagnostic:u1:1793699000000''))
       = Some demo_diagnostic"
    by (simp add: demo_store_def demo_submit_def kv_get_def)
  have v: "\<forall>day \<in> set revisionDays.
      \<bar>UTC zoneUTC (LocalTime zoneUTC (t_now (demo_clock demo_now)) + day * msPerDay)\<bar>
        \<le> 8640000000000000"
    by (rule zoneUTC_valid) (simp_all add: demo_clock_def demo_now_def msPerDay_def)
  have ne: "diagnosticId (demo_submit ''diagnostic:u1:1793699000000'')
       \<noteq> weakConceptId_of ''u1'' demo_diagnostic"
    by (simp add: demo_submit_def demo_ids)
  have sc: "scoreOf 5 8 = Fin (125 / 2)"
    by (simp add: scoreOf_def)
  have len: "length (map demo_question [0, 1, 2, 3, 0, 1, 2, 3]) = 8" by simp
  have hyp: "authenticate demo_getUser (authorization (demo_submit ''diagnostic:u1:1793699000000''))
       = Some ''u1''
     \<and> kv_get demo_store (diagnosticId (demo_submit ''diagnostic:u1:1793699000000''))
         = Some demo_diagnostic
     \<and> getProp demo_diagnostic ''user_id'' = JStr ''u1''
     \<and> getProp demo_diagnostic ''questions'' = JArr (map demo_question [0, 1, 2, 3, 0, 1, 2, 3])
     \<and> countCorrect (answers (demo_submit ''diagnostic:u1:1793699000000''))
           (map demo_question [0, 1, 2, 3, 0, 1, 2, 3]) 0 0 = Some 5
     \<and> (\<forall>day \<in> set revisionDays.
           \<bar>UTC zoneUTC (LocalTime zoneUTC (t_now (demo_clock demo_now)) + day * msPerDay)\<bar>
             \<le> 8640000000000000)
     \<and> diagnosticId (demo_submit ''diagnostic:u1:1793699000000'')
         \<noteq> weakConceptId_of ''u1'' demo_diagnostic"
    using demo_submit_auth d demo_questions(1,3) demo_graded(1) v ne by blast
  note imp = weak_concept_iff[where getUser = demo_getUser and uid = "''u1''"
        and req = "demo_submit ''diagnostic:u1:1793699000000''" and st = demo_store
        and diagnostic = demo_diagnostic
        and questions = "map demo_question [0, 1, 2, 3, 0, 1, 2, 3]" and correct = 5
        and clk = "demo_clock demo_now" and tza = zoneUTC,
        THEN conjunct2, THEN conjunct2, THEN conjunct2, THEN conjunct2, THEN conjunct2,
        THEN conjunct2]
  have "kv_get demo_after1 (weakConceptId_of ''u1'' demo_diagnostic)
       = Some (weakConcept ''u1'' demo_diagnostic (Fin (125 / 2)) (num 2) (demo_now + 2))"
    using mp[OF imp hyp] unfolding len sc demo_after1_def
    by (simp add: jsLess_def demo_clock_def demo_submit_def)
  moreover have "\<bar>UTC zoneUTC (LocalTime zoneUTC (t_now (demo_clock demo_now)) + 1 * msPerDay)\<bar> \<le> 8640000000000000
     \<and> \<bar>UTC zoneUTC (LocalTime zoneUTC (t_now (demo_clock demo_now)) + 3 * msPerDay)\<bar> \<le> 8640000000000000
     \<and> \<bar>UTC zoneUTC (LocalTime zoneUTC (t_now (demo_clock demo_now)) + 7 * msPerDay)\<bar> \<le> 8640000000000000"
    using v by (simp add: revisionDays_def)
  ultimately show ?thesis
    using hyp sc by blast
qed

text \<open>
  C7, as the specification states it, fails. In the scenario the first submission stores
  the day-1 revision of the topic, scheduled for 4 November; the second submission on the
  same topic stores its own day-1 revision, scheduled for 5 November, under the same key.
  The revision of the first cohort is gone, and the user has three revision records
  after the second submission as after the first, not six.
\<close>

theorem cohorts_coexist_counterexample:
  "kv_getProp demo_after1 (revisionId_of ''u1'' demo_diagnostic 1) ''scheduled_date''
     = Some (JStr ''2026-11-04T09:52:00.003Z'')
   \<and> kv_getProp demo_after2 (revisionId_of ''u1'' demo_diagnostic 1) ''scheduled_date''
     = Some (JStr ''2026-11-05T09:52:00.003Z'')
   \<and> kv_get demo_after2 (revisionId_of ''u1'' demo_diagnostic 1)
     \<noteq> kv_get demo_after1 (revisionId_of ''u1'' demo_diagnostic 1)
   \<and> length (kv_getByPrefix demo_after1 ''revision:u1'') = 3
   \<and> length (kv_getByPrefix demo_after2 ''revision:u1'') = 3"
proof -
  have a: "kv_getProp demo_after1 (revisionId_of ''u1'' demo_diagnostic 1) ''scheduled_date''
     = Some (JStr ''2026-11-04T09:52:00.003Z'')"
    by (simp add: kv_getProp_def demo_after1_get newRevision_def getProp_def demo_scheduled_dates)
  have b: "kv_getProp demo_after2 (revisionId_of ''u1'' demo_diagnostic 1) ''scheduled_date''
     = Some (JStr ''2026-11-05T09:52:00.003Z'')"
    by (simp add: kv_getProp_def demo_after2_get newRevision_def getProp_def demo_scheduled_dates)
  from a b have c: "kv_get demo_after2 (revisionId_of ''u1'' demo_diagnostic 1)
     \<noteq> kv_get demo_after1 (revisionId_of ''u1'' demo_diagnostic 1)"
    by (auto simp: kv_getProp_def split: option.splits)
  have d: "length (kv_getByPrefix demo_after1 ''revision:u1'') = 3"
    by (simp add: length_kv_getByPrefix demo_after1_keys)
  have e: "length (kv_getByPrefix demo_after2 ''revision:u1'') = 3"
    by (simp add: length_kv_getByPrefix demo_after2_keys)
  show ?thesis using a b c d e by simp
qed

text \<open>
  C7, amended. A revision is stored under the key
  \<^verbatim>\<open>revision:{user}:{topic}:day{1,3,7}\<close>, which does not depend on the submission. So
  scheduling again for the same user and topic overwrites the three revision records of
  that user and topic in place: after two schedulings on the same topic the three keys
  hold the records of the second cohort, the store has the same keys in the same order
  as after the first (no record is added, for any prefix the number of records is the
  same), and every other key holds what it held. A successful submission of a diagnostic
  on the topic leaves the records of its own cohort under the three keys, whatever
  records were there before.
\<close>

theorem resubmission_overwrites_cohort:
  assumes v1: "\<forall>day \<in> set revisionDays.
                 \<bar>UTC tza (LocalTime tza now1 + day * msPerDay)\<bar> \<le> 8640000000000000"
      and v2: "\<forall>day \<in> set revisionDays.
                 \<bar>UTC tza (LocalTime tza now2 + day * msPerDay)\<bar> \<le> 8640000000000000"
      and topic: "toString (getProp diagnostic2 ''topic'') = toString (getProp diagnostic1 ''topic'')"
  shows "let st1 = snd (scheduleRevisions tza uid diagnostic1 now1 revisionDays st);
             st2 = snd (scheduleRevisions tza uid diagnostic2 now2 revisionDays st1)
         in (\<forall>day \<in> set revisionDays.
                revisionId_of uid diagnostic2 day = revisionId_of uid diagnostic1 day
              \<and> kv_get st1 (revisionId_of uid diagnostic1 day)
                  = Some (newRevision uid diagnostic1 day (UTC tza (LocalTime tza now1 + day * msPerDay)))
              \<and> kv_get st2 (revisionId_of uid diagnostic1 day)
                  = Some (newRevision uid diagnostic2 day (UTC tza (LocalTime tza now2 + day * msPerDay))))
          \<and> map fst st2 = map fst st1
          \<and> length (kv_getByPrefix st2 p) = length (kv_getByPrefix st1 p)
          \<and> (\<forall>k. k \<notin> {revisionId_of uid diagnostic1 1, revisionId_of uid diagnostic1 3,
                        revisionId_of uid diagnostic1 7}
                \<longrightarrow> kv_get st2 k = kv_get st1 k)
          \<and> (\<forall>getUser req clk questions correct store.
                authenticate getUser (authorization req) = Some uid
              \<and> kv_get store (diagnosticId req) = Some diagnostic2
              \<and> getProp diagnostic2 ''user_id'' = JStr uid
              \<and> getProp diagnostic2 ''questions'' = JArr questions
              \<and> countCorrect (answers req) questions 0 0 = Some correct
              \<and> t_now clk = now2
              \<longrightarrow> (\<forall>day \<in> set revisionDays.
                     kv_get (snd (diagnostic_submit tza getUser store req clk))
                       (revisionId_of uid diagnostic1 day)
                     = Some (newRevision uid diagnostic2 day (UTC tza (LocalTime tza now2 + day * msPerDay)))))"
proof -
  let ?st1 = "snd (scheduleRevisions tza uid diagnostic1 now1 revisionDays st)"
  let ?st2 = "snd (scheduleRevisions tza uid diagnostic2 now2 revisionDays ?st1)"
  have days: "day = 1 \<or> day = 3 \<or> day = 7" if "day \<in> set revisionDays" for day
    using that by (auto simp: revisionDays_def)
  have a: "revisionId_of uid diagnostic2 day = revisionId_of uid diagnostic1 day
              \<and> kv_get ?st1 (revisionId_of uid diagnostic1 day)
                  = Some (newRevision uid diagnostic1 day (UTC tza (LocalTime tza now1 + day * msPerDay)))
              \<and> kv_get ?st2 (revisionId_of uid diagnostic1 day)
                  = Some (newRevision uid diagnostic2 day (UTC tza (LocalTime tza now2 + day * msPerDay)))"
    if "day \<in> set revisionDays" for day
    using days[OF that] revisionId_of_topic[OF topic, of uid]
    by (auto simp: scheduleRevisions_get[OF v1] scheduleRevisions_get[OF v2]
        revisionId_of_distinct revisionId_of_distinct[symmetric])
  have b: "map fst ?st2 = map fst ?st1"
    by (rule scheduleRevisions_again_fst[OF v1 v2 topic])
  have c: "length (kv_getByPrefix ?st2 p) = length (kv_getByPrefix ?st1 p)"
    by (simp add: length_kv_getByPrefix b)
  have d: "kv_get ?st2 k = kv_get ?st1 k"
    if "k \<notin> {revisionId_of uid diagnostic1 1, revisionId_of uid diagnostic1 3,
                        revisionId_of uid diagnostic1 7}" for k
    using that by (simp add: scheduleRevisions_get[OF v2] revisionId_of_topic[OF topic])
  have e: "kv_get (snd (diagnostic_submit tza getUser store req clk))
                       (revisionId_of uid diagnostic1 day)
                     = Some (newRevision uid diagnostic2 day (UTC tza (LocalTime tza now2 + day * msPerDay)))"
    if h: "authenticate getUser (authorization req) = Some uid
              \<and> kv_get store (diagnosticId req) = Some diagnostic2
              \<and> getProp diagnostic2 ''user_id'' = JStr uid
              \<and> getProp diagnostic2 ''questions'' = JArr questions
              \<and> countCorrect (answers req) questions 0 0 = Some correct
              \<and> t_now clk = now2" and day: "day \<in> set revisionDays"
    for getUser req clk questions correct store day
  proof -
    from h have h': "authenticate getUser (authorization req) = Some uid"
        "kv_get store (diagnosticId req) = Some diagnostic2"
        "getProp diagnostic2 ''user_id'' = JStr uid"
        "getProp diagnostic2 ''questions'' = JArr questions"
        "countCorrect (answers req) questions 0 0 = Some correct"
        "t_now clk = now2" by simp_all
    have v: "\<forall>day \<in> set revisionDays.
               \<bar>UTC tza (LocalTime tza (t_now clk) + day * msPerDay)\<bar> \<le> 8640000000000000"
      using v2 h'(6) by simp
    show ?thesis
      unfolding diagnostic_submit_ok[OF h'(1) h'(2) h'(3) h'(4) refl h'(5) v] snd_conv
      using days[OF day] revisionId_of_topic[OF topic, of uid] h'(6)
      by (auto simp: scheduleRevisions_get[OF v] revisionId_of_distinct
          revisionId_of_distinct[symmetric])
  qed
  show ?thesis
    unfolding Let_def using a b c d e by blast
qed

theorem resubmission_overwrites_cohort_witness:
  "\<bar>UTC zoneUTC (LocalTime zoneUTC demo_now + 1 * msPerDay)\<bar> \<le> 8640000000000000
   \<and> \<bar>UTC zoneUTC (LocalTime zoneUTC demo_now + 3 * msPerDay)\<bar> \<le> 8640000000000000
   \<and> \<bar>UTC zoneUTC (LocalTime zoneUTC demo_now + 7 * msPerDay)\<bar> \<le> 8640000000000000
   \<and> \<bar>UTC zoneUTC (LocalTime zoneUTC demo_later + 1 * msPerDay)\<bar> \<le> 8640000000000000
   \<and> \<bar>UTC zoneUTC (LocalTime zoneUTC demo_later + 3 * msPerDay)\<bar> \<le> 8640000000000000
   \<and> \<bar>UTC zoneUTC (LocalTime zoneUTC demo_later + 7 * msPerDay)\<bar> \<le> 8640000000000000
   \<and> toString (getProp demo_diagnostic2 ''topic'') = toString (getProp demo_diagnostic ''topic'')
   \<and> (7::int) \<in> set revisionDays
   \<and> kv_get demo_scheduled (revisionId_of ''u1'' demo_diagnostic 7)
       = Some (newRevision ''u1'' demo_diagnostic 7 (demo_now + 7 * msPerDay))
   \<and> kv_get (snd (scheduleRevisions zoneUTC ''u1'' demo_diagnostic2 demo_later revisionDays
                    demo_scheduled))
         (revisionId_of ''u1'' demo_diagnostic 7)
       = Some (newRevision ''u1'' demo_diagnostic2 7 (demo_later + 7 * msPerDay))"
proof -
  have v1: "\<forall>day \<in> set revisionDays.
      \<bar>UTC zoneUTC (LocalTime zoneUTC demo_now + day * msPerDay)\<bar> \<le> 8640000000000000"
    by (rule zoneUTC_valid) (simp_all add: demo_now_def msPerDay_def)
  have v2: "\<forall>day \<in> set revisionDays.
      \<bar>UTC zoneUTC (LocalTime zoneUTC demo_later + day * msPerDay)\<bar> \<le> 8640000000000000"
    by (rule zoneUTC_valid) (simp_all add: demo_later_def msPerDay_def)
  have topic: "toString (getProp demo_diagnostic2 ''topic'')
                 = toString (getProp demo_diagnostic ''topic'')"
    by (simp add: demo_questions)
  have d: "(7::int) \<in> set revisionDays" by (simp add: revisionDays_def)
  note inst = resubmission_overwrites_cohort[OF v1 v2 topic, where uid = "''u1''"
        and st = "[]", unfolded Let_def, THEN conjunct1, rule_format, OF d]
  have "kv_get demo_scheduled (revisionId_of ''u1'' demo_diagnostic 7)
       = Some (newRevision ''u1'' demo_diagnostic 7 (demo_now + 7 * msPerDay))
   \<and> kv_get (snd (scheduleRevisions zoneUTC ''u1'' demo_diagnostic2 demo_later revisionDays
                    demo_scheduled))
         (revisionId_of ''u1'' demo_diagnostic 7)
       = Some (newRevision ''u1'' demo_diagnostic2 7 (demo_later + 7 * msPerDay))"
    using inst by (simp add: demo_scheduled_def zoneUTC_time)
  moreover have "\<bar>UTC zoneUTC (LocalTime zoneUTC demo_now + 1 * msPerDay)\<bar> \<le> 8640000000000000
     \<and> \<bar>UTC zoneUTC (LocalTime zoneUTC demo_now + 3 * msPerDay)\<bar> \<le> 8640000000000000
     \<and> \<bar>UTC zoneUTC (LocalTime zoneUTC demo_now + 7 * msPerDay)\<bar> \<le> 8640000000000000"
    using v1 by (simp add: revisionDays_def)
  moreover have "\<bar>UTC zoneUTC (LocalTime zoneUTC demo_later + 1 * msPerDay)\<bar> \<le> 8640000000000000
     \<and> \<bar>UTC zoneUTC (LocalTime zoneUTC demo_later + 3 * msPerDay)\<bar> \<le> 8640000000000000
     \<and> \<bar>UTC zoneUTC (LocalTime zoneUTC demo_later + 7 * msPerDay)\<bar> \<le> 8640000000000000"
    using v2 by (simp add: revisionDays_def)
  ultimately show ?thesis using topic d by blast
qed

section \<open>The revisions that are due: dates and their ISO strings\<close>

lemma div_bracket:
  fixes x c :: int
  assumes "0 < c"
  shows "c * (x div c) \<le> x \<and> x < c * (x div c) + c"
proof -
  have "x = c * (x div c) + x mod c" by simp
  moreover have "0 \<le> x mod c" "x mod c < c" using assms by simp_all
  ultimately show ?thesis by linarith
qed

lemma DayFromYear_bounds:
  "146097 * y - 287811697 < 400 * DayFromYear y \<and> 400 * DayFromYear y < 146097 * y - 287810497"
proof -
  define a where "a = (y - 1969) div 4"
  define b where "b = (y - 1901) div 100"
  define c where "c = (y - 1601) div 400"
  have "4 * a \<le> y - 1969 \<and> y - 1969 < 4 * a + 4"
    unfolding a_def by (rule div_bracket) simp
  moreover have "100 * b \<le> y - 1901 \<and> y - 1901 < 100 * b + 100"
    unfolding b_def by (rule div_bracket) simp
  moreover have "400 * c \<le> y - 1601 \<and> y - 1601 < 400 * c + 400"
    unfolding c_def by (rule div_bracket) simp
  moreover have "DayFromYear y = 365 * y - 719050 + a - b + c"
    by (simp add: DayFromYear_def a_def b_def c_def)
  ultimately show ?thesis by linarith
qed

lemma YearFromDay_bracket:
  "DayFromYear (YearFromDay d) \<le> d \<and> d < DayFromYear (YearFromDay d + 1)"
proof -
  define y where "y = 1970 + (400 * d) div 146097"
  have "146097 * ((400 * d) div 146097) \<le> 400 * d
      \<and> 400 * d < 146097 * ((400 * d) div 146097) + 146097"
    by (rule div_bracket) simp
  then have b: "146097 * y - 287811090 \<le> 400 * d \<and> 400 * d < 146097 * y - 287664993"
    by (simp add: y_def)
  have "400 * DayFromYear (y - 1) < 146097 * y - 287956594"
    using DayFromYear_bounds[of "y - 1"] by (simp add: algebra_simps)
  with b have lo: "DayFromYear (y - 1) \<le> d" by linarith
  have "146097 * y - 287519503 < 400 * DayFromYear (y + 1 + 1)"
    using DayFromYear_bounds[of "y + 1 + 1"] by (simp add: algebra_simps)
  with b have hi: "d < DayFromYear (y + 1 + 1)" by linarith
  have yd: "YearFromDay d =
      (if DayFromYear (y + 1) \<le> d then y + 1 else if d < DayFromYear y then y - 1 else y)"
    by (simp add: YearFromDay_def y_def Let_def)
  show ?thesis
  proof (cases "DayFromYear (y + 1) \<le> d")
    case True
    then show ?thesis using hi by (simp add: yd)
  next
    case False
    show ?thesis
    proof (cases "d < DayFromYear y")
      case True
      with False lo show ?thesis by (simp add: yd)
    next
      case nlt: False
      with False show ?thesis by (simp add: yd)
    qed
  qed
qed

lemma div_step:
  fixes x c :: int
  assumes "0 < c"
  shows "(x + 1) div c = x div c + (if (x + 1) mod c = 0 then 1 else 0)"
proof (cases "x mod c + 1 = c")
  case True
  have e0: "x = c * (x div c) + x mod c" by simp
  have "x + 1 = c * (x div c) + c" using e0 True by linarith
  then have e: "x + 1 = (x div c + 1) * c" by (simp add: algebra_simps)
  have "(x + 1) div c = x div c + 1" unfolding e using assms by simp
  moreover have "(x + 1) mod c = 0" unfolding e by simp
  ultimately show ?thesis by simp
next
  case False
  have r: "0 \<le> x mod c + 1" "x mod c + 1 < c"
    using assms False pos_mod_bound[of c x] pos_mod_sign[of c x] by linarith+
  have e: "x + 1 = c * (x div c) + (x mod c + 1)" by simp
  have "(x + 1) div c = x div c"
    by (rule int_div_pos_eq[OF e r])
  moreover have "(x + 1) mod c = x mod c + 1"
    by (rule int_mod_pos_eq[OF e r])
  ultimately show ?thesis using pos_mod_sign[OF assms, of x] by simp
qed

lemma mod_shift:
  fixes y c k :: int
  shows "(y - c * k) mod c = y mod c"
proof -
  have "(y + c * (- k)) mod c = y mod c" by (rule mod_mult_self2)
  then show ?thesis by simp
qed

lemma DayFromYear_Suc: "DayFromYear (y + 1) = DayFromYear y + DaysInYear y"
proof -
  have a: "(y + 1 - 1969) div 4 = (y - 1969) div 4 + (if y mod 4 = 0 then 1 else 0)"
    using div_step[of 4 "y - 1969"] mod_shift[of y 4 492] by (simp add: algebra_simps)
  have b: "(y + 1 - 1901) div 100 = (y - 1901) div 100 + (if y mod 100 = 0 then 1 else 0)"
    using div_step[of 100 "y - 1901"] mod_shift[of y 100 19] by (simp add: algebra_simps)
  have c: "(y + 1 - 1601) div 400 = (y - 1601) div 400 + (if y mod 400 = 0 then 1 else 0)"
    using div_step[of 400 "y - 1601"] mod_shift[of y 400 4] by (simp add: algebra_simps)
  have d1: "y mod 4 = 0" if "y mod 100 = 0"
  proof -
    from that have "100 dvd y" by (simp add: mod_eq_0_iff_dvd)
    then have "4 dvd y" using dvd_trans[of 4 100 y] by simp
    then show ?thesis by (simp add: mod_eq_0_iff_dvd)
  qed
  have d2: "y mod 100 = 0" if "y mod 400 = 0"
  proof -
    from that have "400 dvd y" by (simp add: mod_eq_0_iff_dvd)
    then have "100 dvd y" using dvd_trans[of 100 400 y] by simp
    then show ?thesis by (simp add: mod_eq_0_iff_dvd)
  qed
  have e: "DayFromYear (y + 1) = DayFromYear y + 365 + (if y mod 4 = 0 then 1 else 0)
             - (if y mod 100 = 0 then 1 else 0) + (if y mod 400 = 0 then 1 else 0)"
    unfolding DayFromYear_def a b c by (simp add: algebra_simps)
  show ?thesis
  proof (cases "y mod 4 = 0")
    case False
    with d1 d2 have "y mod 100 \<noteq> 0" "y mod 400 \<noteq> 0" by auto
    with False show ?thesis unfolding e by (simp add: DaysInYear_def)
  next
    case True
    show ?thesis
    proof (cases "y mod 100 = 0")
      case False
      with d2 have "y mod 400 \<noteq> 0" by auto
      with True False show ?thesis unfolding e by (simp add: DaysInYear_def)
    next
      case h: True
      with True show ?thesis unfolding e by (simp add: DaysInYear_def)
    qed
  qed
qed

lemma DaysInYear_range: "365 \<le> DaysInYear y \<and> DaysInYear y \<le> 366"
  by (simp add: DaysInYear_def)

lemma DayFromYear_mono:
  assumes "y \<le> y'"
  shows "DayFromYear y \<le> DayFromYear y'"
  using assms
proof (induction y' rule: int_ge_induct)
  case base
  show ?case by simp
next
  case (step i)
  then show ?case
    using DayFromYear_Suc[of i] DaysInYear_range[of i] by linarith
qed

lemma YearFromDay_mono:
  assumes "d \<le> d'"
  shows "YearFromDay d \<le> YearFromDay d'"
proof (rule ccontr)
  assume "\<not> YearFromDay d \<le> YearFromDay d'"
  then have "YearFromDay d' + 1 \<le> YearFromDay d" by simp
  then have "DayFromYear (YearFromDay d' + 1) \<le> DayFromYear (YearFromDay d)"
    by (rule DayFromYear_mono)
  with YearFromDay_bracket[of d] YearFromDay_bracket[of d'] assms show False by linarith
qed

lemma InLeapYear_cases: "InLeapYear t = 0 \<or> InLeapYear t = 1"
  by (simp add: InLeapYear_def)

lemma DayWithinYear_range:
  "0 \<le> DayWithinYear t \<and> DayWithinYear t < 365 + InLeapYear t"
proof -
  have "DaysInYear (YearFromTime t) = 365 + InLeapYear t"
    using DaysInYear_range[of "YearFromTime t"] by (auto simp: InLeapYear_def)
  then show ?thesis
    using YearFromDay_bracket[of "Day t"] DayFromYear_Suc[of "YearFromTime t"]
    by (simp add: DayWithinYear_def YearFromTime_def)
qed

text \<open>A month from 1 to 11 has been reached exactly from its first day on.\<close>

lemma month_reached:
  assumes "1 \<le> m" and "m \<le> 11"
  shows "(m \<le> MonthFromTime t) = (monthOffset m (InLeapYear t) \<le> DayWithinYear t)"
proof -
  from assms have "m = 1 \<or> m = 2 \<or> m = 3 \<or> m = 4 \<or> m = 5 \<or> m = 6 \<or> m = 7 \<or> m = 8
      \<or> m = 9 \<or> m = 10 \<or> m = 11" by presburger
  then show ?thesis
    using InLeapYear_cases[of t]
    by (elim disjE) (simp_all add: MonthFromTime_def monthOffset_def Let_def)
qed

lemma monthOffset_next:
  assumes "0 \<le> m" and "m \<le> 10" and "l = 0 \<or> l = 1"
  shows "monthOffset (m + 1) l \<le> monthOffset m l + 31"
proof -
  from assms have "m = 0 \<or> m = 1 \<or> m = 2 \<or> m = 3 \<or> m = 4 \<or> m = 5 \<or> m = 6 \<or> m = 7
      \<or> m = 8 \<or> m = 9 \<or> m = 10" by presburger
  then show ?thesis
    using assms(3) by (elim disjE) (auto simp: monthOffset_def)
qed

lemma month_start: "monthOffset (MonthFromTime t) (InLeapYear t) \<le> DayWithinYear t"
proof (cases "MonthFromTime t = 0")
  case True
  then show ?thesis using DayWithinYear_range[of t] by (simp add: monthOffset_def)
next
  case False
  then have "1 \<le> MonthFromTime t" "MonthFromTime t \<le> 11"
    using MonthFromTime_range[of t] by simp_all
  from month_reached[OF this, of t] show ?thesis by simp
qed

lemma month_end:
  "DayWithinYear t < monthOffset (MonthFromTime t) (InLeapYear t) + 31"
proof (cases "MonthFromTime t = 11")
  case True
  then show ?thesis using DayWithinYear_range[of t] by (simp add: monthOffset_def)
next
  case False
  then have r: "1 \<le> MonthFromTime t + 1" "MonthFromTime t + 1 \<le> 11"
    using MonthFromTime_range[of t] by simp_all
  from month_reached[OF r, of t]
  have "DayWithinYear t < monthOffset (MonthFromTime t + 1) (InLeapYear t)" by simp
  moreover have "monthOffset (MonthFromTime t + 1) (InLeapYear t)
                   \<le> monthOffset (MonthFromTime t) (InLeapYear t) + 31"
    using MonthFromTime_range[of t] False InLeapYear_cases[of t]
    by (intro monthOffset_next) simp_all
  ultimately show ?thesis by linarith
qed

lemma DateFromTime_range: "1 \<le> DateFromTime t \<and> DateFromTime t \<le> 31"
  using month_start[of t] month_end[of t] by (simp add: DateFromTime_offset)

text \<open>Day numbers are ordered as the dates (year, month, day of the month) are.\<close>

lemma Day_le_iff:
  "(Day t \<le> Day t') =
     (YearFromTime t < YearFromTime t'
      \<or> (YearFromTime t = YearFromTime t'
          \<and> (MonthFromTime t < MonthFromTime t'
              \<or> (MonthFromTime t = MonthFromTime t' \<and> DateFromTime t \<le> DateFromTime t'))))"
proof -
  consider (lt) "YearFromTime t < YearFromTime t'" | (gt) "YearFromTime t' < YearFromTime t"
    | (eq) "YearFromTime t = YearFromTime t'" by linarith
  then show ?thesis
  proof cases
    case lt
    then have "DayFromYear (YearFromTime t + 1) \<le> DayFromYear (YearFromTime t')"
      by (intro DayFromYear_mono) simp
    then have "Day t < Day t'"
      using YearFromDay_bracket[of "Day t"] YearFromDay_bracket[of "Day t'"]
      by (simp add: YearFromTime_def)
    with lt show ?thesis by simp
  next
    case gt
    then have "DayFromYear (YearFromTime t' + 1) \<le> DayFromYear (YearFromTime t)"
      by (intro DayFromYear_mono) simp
    then have "Day t' < Day t"
      using YearFromDay_bracket[of "Day t"] YearFromDay_bracket[of "Day t'"]
      by (simp add: YearFromTime_def)
    with gt show ?thesis by simp
  next
    case eq
    then have l: "InLeapYear t = InLeapYear t'" by (simp add: InLeapYear_def)
    have d: "(Day t \<le> Day t') = (DayWithinYear t \<le> DayWithinYear t')"
      using eq by (simp add: DayWithinYear_def)
    consider (mlt) "MonthFromTime t < MonthFromTime t'"
      | (mgt) "MonthFromTime t' < MonthFromTime t"
      | (meq) "MonthFromTime t = MonthFromTime t'" by linarith
    then show ?thesis
    proof cases
      case mlt
      then have r: "1 \<le> MonthFromTime t + 1" "MonthFromTime t + 1 \<le> 11"
        using MonthFromTime_range[of t] MonthFromTime_range[of t'] by simp_all
      from month_reached[OF r, of t] month_reached[OF r, of t'] mlt l
      have "DayWithinYear t < DayWithinYear t'" by simp
      with eq mlt d show ?thesis by simp
    next
      case mgt
      then have r: "1 \<le> MonthFromTime t' + 1" "MonthFromTime t' + 1 \<le> 11"
        using MonthFromTime_range[of t] MonthFromTime_range[of t'] by simp_all
      from month_reached[OF r, of t] month_reached[OF r, of t'] mgt l
      have "DayWithinYear t' < DayWithinYear t" by simp
      with eq mgt d show ?thesis by simp
    next
      case meq
      with eq l d show ?thesis by (simp add: DateFromTime_offset)
    qed
  qed
qed

lemma of_char_digitChar: "d < 10 \<Longrightarrow> (of_char (digitChar d) :: nat) = 48 + d"
proof -
  assume "d < 10"
  then have "d = 0 \<or> d = 1 \<or> d = 2 \<or> d = 3 \<or> d = 4 \<or> d = 5 \<or> d = 6 \<or> d = 7
      \<or> d = 8 \<or> d = 9" by presburger
  then show ?thesis by (elim disjE) (simp_all add: digitChar_def)
qed

lemma digitChar_less: "a < 10 \<Longrightarrow> b < 10 \<Longrightarrow> (digitChar a < digitChar b) = (a < b)"
  by (simp add: less_char_def of_char_digitChar)

lemma digitChar_eq: "a < 10 \<Longrightarrow> b < 10 \<Longrightarrow> (digitChar a = digitChar b) = (a = b)"
proof
  assume "a < 10" "b < 10" "digitChar a = digitChar b"
  then have "(of_char (digitChar a) :: nat) = of_char (digitChar b)" by simp
  with \<open>a < 10\<close> \<open>b < 10\<close> show "a = b" by (simp add: of_char_digitChar)
qed simp

lemma digitChar_not_T: "digitChar d \<noteq> CHR ''T''"
  by (simp add: digitChar_def)

lemma divmod_less:
  fixes n m k :: nat
  assumes "0 < k"
  shows "(n < m) = (n div k < m div k \<or> (n div k = m div k \<and> n mod k < m mod k))"
proof -
  have n: "n = k * (n div k) + n mod k" and m: "m = k * (m div k) + m mod k" by simp_all
  have rn: "n mod k < k" and rm: "m mod k < k" using assms by simp_all
  define a where "a = n div k"
  define b where "b = m div k"
  have n': "n = k * a + n mod k" and m': "m = k * b + m mod k"
    using n m by (simp_all add: a_def b_def)
  show ?thesis unfolding a_def[symmetric] b_def[symmetric]
  proof (cases "a < b")
    case True
    then have "a + 1 \<le> b" by simp
    then have "k * (a + 1) \<le> k * b" by (rule mult_le_mono2)
    then have "k * a + k \<le> k * b" by (simp add: algebra_simps)
    then have "n < m" using n' m' rn by linarith
    with True show "(n < m) = (a < b \<or> (a = b \<and> n mod k < m mod k))" by simp
  next
    case False
    show "(n < m) = (a < b \<or> (a = b \<and> n mod k < m mod k))"
    proof (cases "a = b")
      case True
      then show ?thesis using n' m' by (metis nat_add_left_cancel_less less_irrefl)
    next
      case ne: False
      with False have "b + 1 \<le> a" by simp
      then have "k * (b + 1) \<le> k * a" by (rule mult_le_mono2)
      then have "k * b + k \<le> k * a" by (simp add: algebra_simps)
      then have "m < n" using n' m' rm by linarith
      with False ne show ?thesis by simp
    qed
  qed
qed

lemma less10:
  fixes n m :: nat
  shows "(n < m) = (n div 10 < m div 10 \<or> (n div 10 = m div 10 \<and> n mod 10 < m mod 10))"
  by (rule divmod_less) simp

lemma divmod_eq:
  fixes n m k :: nat
  shows "(n = m) = (n div k = m div k \<and> n mod k = m mod k)"
  by (metis div_mult_mod_eq)

lemma pad2_less: "n < 100 \<Longrightarrow> m < 100 \<Longrightarrow> (pad2 n < pad2 m) = (n < m)"
proof -
  assume b: "n < 100" "m < 100"
  then have d: "n div 10 < 10" "m div 10 < 10" by simp_all
  have "(pad2 n < pad2 m)
      = (n div 10 < m div 10 \<or> (n div 10 = m div 10 \<and> n mod 10 < m mod 10))"
    using d by (simp add: pad2_def digitChar_less digitChar_eq)
  also have "\<dots> = (n < m)" by (rule less10[symmetric])
  finally show ?thesis .
qed

lemma pad2_eq: "n < 100 \<Longrightarrow> m < 100 \<Longrightarrow> (pad2 n = pad2 m) = (n = m)"
proof -
  assume b: "n < 100" "m < 100"
  then have d: "n div 10 < 10" "m div 10 < 10" by simp_all
  have "(pad2 n = pad2 m) = (n div 10 = m div 10 \<and> n mod 10 = m mod 10)"
    using d by (simp add: pad2_def digitChar_eq)
  also have "\<dots> = (n = m)" by (rule divmod_eq[symmetric])
  finally show ?thesis .
qed

lemma pad4_less: "n < 10000 \<Longrightarrow> m < 10000 \<Longrightarrow> (pad4 n < pad4 m) = (n < m)"
proof -
  assume b: "n < 10000" "m < 10000"
  then have d: "n div 1000 < 10" "m div 1000 < 10" by simp_all
  have e: "n div 1000 = n div 100 div 10" "m div 1000 = m div 100 div 10"
    "n div 100 = n div 10 div 10" "m div 100 = m div 10 div 10"
    by (simp_all add: div_mult2_eq[symmetric])
  have "(pad4 n < pad4 m)
      = (n div 1000 < m div 1000 \<or> (n div 1000 = m div 1000 \<and>
          (n div 100 mod 10 < m div 100 mod 10 \<or> (n div 100 mod 10 = m div 100 mod 10 \<and>
            (n div 10 mod 10 < m div 10 mod 10 \<or> (n div 10 mod 10 = m div 10 mod 10 \<and>
               n mod 10 < m mod 10))))))"
    using d by (simp add: pad4_def pad3_def digitChar_less digitChar_eq)
  also have "\<dots> = (n div 100 < m div 100 \<or> (n div 100 = m div 100 \<and>
            (n div 10 mod 10 < m div 10 mod 10 \<or> (n div 10 mod 10 = m div 10 mod 10 \<and>
               n mod 10 < m mod 10))))"
    unfolding e(1,2) using less10[of "n div 100" "m div 100"]
      divmod_eq[of "n div 100" "m div 100" 10] by blast
  also have "\<dots> = (n div 10 < m div 10 \<or> (n div 10 = m div 10 \<and> n mod 10 < m mod 10))"
    unfolding e(3,4) using less10[of "n div 10" "m div 10"]
      divmod_eq[of "n div 10" "m div 10" 10] by blast
  also have "\<dots> = (n < m)" by (rule less10[symmetric])
  finally show ?thesis .
qed

lemma pad4_eq: "n < 10000 \<Longrightarrow> m < 10000 \<Longrightarrow> (pad4 n = pad4 m) = (n = m)"
proof -
  assume b: "n < 10000" "m < 10000"
  then have d: "n div 1000 < 10" "m div 1000 < 10" by simp_all
  have e: "n div 1000 = n div 100 div 10" "m div 1000 = m div 100 div 10"
    "n div 100 = n div 10 div 10" "m div 100 = m div 10 div 10"
    by (simp_all add: div_mult2_eq[symmetric])
  have "(pad4 n = pad4 m)
      = (n div 1000 = m div 1000 \<and> n div 100 mod 10 = m div 100 mod 10
          \<and> n div 10 mod 10 = m div 10 mod 10 \<and> n mod 10 = m mod 10)"
    using d by (simp add: pad4_def pad3_def digitChar_eq)
  also have "\<dots> = (n div 100 = m div 100
          \<and> n div 10 mod 10 = m div 10 mod 10 \<and> n mod 10 = m mod 10)"
    unfolding e(1,2) using divmod_eq[of "n div 100" "m div 100" 10] by blast
  also have "\<dots> = (n div 10 = m div 10 \<and> n mod 10 = m mod 10)"
    unfolding e(3,4) using divmod_eq[of "n div 10" "m div 10" 10] by blast
  also have "\<dots> = (n = m)" by (rule divmod_eq[symmetric])
  finally show ?thesis .
qed

lemma append_less_append:
  fixes a b x y :: "'a::linorder list"
  shows "length a = length b \<Longrightarrow> (a @ x < b @ y) = (a < b \<or> (a = b \<and> x < y))"
  by (induction a b rule: list_induct2) auto

lemma append_le_append:
  fixes a b x y :: "'a::linorder list"
  shows "length a = length b \<Longrightarrow> (a @ x \<le> b @ y) = (a < b \<or> (a = b \<and> x \<le> y))"
  by (induction a b rule: list_induct2) auto

lemma length_pad: "length (pad2 n) = 2" "length (pad4 n) = 4"
  by (simp_all add: pad2_def pad3_def pad4_def)

lemma pad2_le: "n < 100 \<Longrightarrow> m < 100 \<Longrightarrow> (pad2 n \<le> pad2 m) = (n \<le> m)"
  unfolding le_less by (simp only: pad2_less pad2_eq)

lemma isoDate_four_digits:
  assumes "0 \<le> YearFromTime t" and "YearFromTime t \<le> 9999"
  shows "isoDate t = pad4 (nat (YearFromTime t)) @ CHR ''-'' # pad2 (nat (MonthFromTime t + 1))
           @ CHR ''-'' # pad2 (nat (DateFromTime t))"
  using assms by (simp add: isoDate_def isoYear_def)

text \<open>
  For dates whose years have four digits, the date parts of the ISO strings are ordered as
  strings the way the days are ordered.
\<close>

lemma isoDate_le_iff:
  assumes t: "0 \<le> YearFromTime t" "YearFromTime t \<le> 9999"
    and t': "0 \<le> YearFromTime t'" "YearFromTime t' \<le> 9999"
  shows "(isoDate t \<le> isoDate t') = (Day t \<le> Day t')"
proof -
  define y where "y = nat (YearFromTime t)"
  define y' where "y' = nat (YearFromTime t')"
  define m where "m = nat (MonthFromTime t + 1)"
  define m' where "m' = nat (MonthFromTime t' + 1)"
  define d where "d = nat (DateFromTime t)"
  define d' where "d' = nat (DateFromTime t')"
  have yb: "y < 10000" "y' < 10000" using t t' by (simp_all add: y_def y'_def)
  have bm: "m < 100" "m' < 100"
    using MonthFromTime_range[of t] MonthFromTime_range[of t'] unfolding m_def m'_def
    by linarith+
  have bd: "d < 100" "d' < 100"
    using DateFromTime_range[of t] DateFromTime_range[of t'] unfolding d_def d'_def
    by linarith+
  have "(isoDate t \<le> isoDate t')
      = (pad4 y @ CHR ''-'' # pad2 m @ CHR ''-'' # pad2 d
           \<le> pad4 y' @ CHR ''-'' # pad2 m' @ CHR ''-'' # pad2 d')"
    by (simp only: isoDate_four_digits[OF t] isoDate_four_digits[OF t']
          y_def y'_def m_def m'_def d_def d'_def)
  also have "\<dots> = (pad4 y < pad4 y' \<or> (pad4 y = pad4 y'
         \<and> (pad2 m < pad2 m' \<or> (pad2 m = pad2 m' \<and> pad2 d \<le> pad2 d'))))"
    by (simp add: append_le_append length_pad)
  also have "\<dots> = (y < y' \<or> (y = y' \<and> (m < m' \<or> (m = m' \<and> d \<le> d'))))"
    by (simp only: pad4_less[OF yb] pad4_eq[OF yb] pad2_less[OF bm] pad2_eq[OF bm] pad2_le[OF bd])
  also have "\<dots> = (YearFromTime t < YearFromTime t'
      \<or> (YearFromTime t = YearFromTime t'
          \<and> (MonthFromTime t < MonthFromTime t'
              \<or> (MonthFromTime t = MonthFromTime t' \<and> DateFromTime t \<le> DateFromTime t'))))"
  proof -
    have "(y < y') = (YearFromTime t < YearFromTime t')"
      and "(y = y') = (YearFromTime t = YearFromTime t')"
      using t t' unfolding y_def y'_def by linarith+
    moreover have "(m < m') = (MonthFromTime t < MonthFromTime t')"
      and "(m = m') = (MonthFromTime t = MonthFromTime t')"
      using MonthFromTime_range[of t] MonthFromTime_range[of t'] unfolding m_def m'_def
      by linarith+
    moreover have "(d \<le> d') = (DateFromTime t \<le> DateFromTime t')"
      using DateFromTime_range[of t] DateFromTime_range[of t'] unfolding d_def d'_def
      by linarith
    ultimately show ?thesis by (simp only:)
  qed
  also have "\<dots> = (Day t \<le> Day t')" by (rule Day_le_iff[symmetric])
  finally show ?thesis .
qed

lemma no_T_pad: "CHR ''T'' \<notin> set (pad2 n)" "CHR ''T'' \<notin> set (pad4 n)" "CHR ''T'' \<notin> set (pad6 n)"
  by (simp_all add: pad2_def pad3_def pad4_def pad6_def digitChar_not_T[symmetric])

lemma no_T_isoDate: "CHR ''T'' \<notin> set (isoDate t)"
  by (simp add: isoDate_def isoYear_def no_T_pad)

lemma takeWhile_until: "c \<notin> set xs \<Longrightarrow> takeWhile (\<lambda>x. x \<noteq> c) (xs @ c # ys) = xs"
  by (induction xs) auto

text \<open>What \<^verbatim>\<open>toISOString().split('T')[0]\<close> yields is the date part of the string.\<close>

lemma splitT0_toISOString: "splitT0 (toISOString t) = isoDate t"
proof -
  have "toISOString t = isoDate t @ CHR ''T'' # (pad2 (nat (HourFromTime t)) @ '':''
      @ pad2 (nat (MinFromTime t)) @ '':'' @ pad2 (nat (SecFromTime t)) @ ''.''
      @ pad3 (nat (msFromTime t)) @ ''Z'')"
    by (simp add: toISOString_def)
  then show ?thesis
    unfolding splitT0_def by (simp only: takeWhile_until[OF no_T_isoDate])
qed

text \<open>The filter, when every \<^verbatim>\<open>scheduled_date\<close> is a string.\<close>

lemma filterDue_filter:
  assumes "\<forall>r \<in> set rs. getProp r ''scheduled_date'' = JStr (date r)"
  shows "filterDue today rs
    = Some (filter (\<lambda>r. splitT0 (date r) \<le> today \<and> \<not> truthy (getProp r ''completed'')) rs)"
  using assms by (induction rs) (simp_all add: dueToday_def)

lemma getDueRevisions_filter:
  assumes rs: "\<forall>r \<in> set allRevisions.
      getProp r ''scheduled_date'' = JStr (toISOString (scheduled r))
      \<and> 0 \<le> YearFromTime (scheduled r) \<and> YearFromTime (scheduled r) \<le> 9999"
    and now: "0 \<le> YearFromTime now" "YearFromTime now \<le> 9999"
  shows "getDueRevisions allRevisions now
    = Some (filter (\<lambda>r. Day (scheduled r) \<le> Day now \<and> \<not> truthy (getProp r ''completed''))
        allRevisions)"
proof -
  have "getDueRevisions allRevisions now
      = Some (filter (\<lambda>r. splitT0 (toISOString (scheduled r)) \<le> splitT0 (toISOString now)
                \<and> \<not> truthy (getProp r ''completed'')) allRevisions)"
    unfolding getDueRevisions_def using rs by (intro filterDue_filter) simp
  also have "filter (\<lambda>r. splitT0 (toISOString (scheduled r)) \<le> splitT0 (toISOString now)
                \<and> \<not> truthy (getProp r ''completed'')) allRevisions
      = filter (\<lambda>r. Day (scheduled r) \<le> Day now \<and> \<not> truthy (getProp r ''completed''))
          allRevisions"
    using rs now by (intro filter_cong refl) (simp add: splitT0_toISOString isoDate_le_iff)
  finally show ?thesis .
qed

lemma demo_get_auth: "authenticate demo_getUser (authorization demo_get) = Some ''u1''"
  by (simp add: demo_get_def authenticate_def accessToken_def demo_getUser_def)

lemma demo_done1_revisions:
  "kv_getByPrefix demo_done1 ''revision:u1'' =
     [completedRevision (newRevision ''u1'' demo_diagnostic 1 1793785920000) (num 6) 1793790000000,
      newRevision ''u1'' demo_diagnostic 3 1793958720000,
      newRevision ''u1'' demo_diagnostic 7 1794304320000]"
proof -
  have rid: "revisionId (demo_complete 1 (num 6)) = revisionId_of ''u1'' demo_diagnostic 1"
    by (simp add: demo_complete_def)
  have pid: "progressId_of ''u1'' (newRevision ''u1'' demo_diagnostic 1 1793785920000)
               = ''progress:u1:Thermodynamics''"
    by (simp add: progressId_of_def getProp_newRevision demo_questions)
  have st: "demo_done1 =
      kv_set (kv_set demo_scheduled (revisionId_of ''u1'' demo_diagnostic 1)
                (completedRevision (newRevision ''u1'' demo_diagnostic 1 1793785920000) (num 6)
                   1793790000000))
        ''progress:u1:Thermodynamics''
        (updateProgress [] ''u1'' (newRevision ''u1'' demo_diagnostic 1 1793785920000) (num 6)
           1793790000001)"
    unfolding demo_done1_def
      revisions_complete_ok[OF demo_auth demo_revision(1) demo_owner] Let_def snd_conv
      demo_recallScore rid pid
    by (simp add: kv_get_set demo_no_progress[of "newRevision ''u1'' demo_diagnostic 1 1793785920000", unfolded pid]
        demo_ids ratToString_days)
  show ?thesis
    unfolding st
    by (simp add: demo_scheduled_eq demo_ids ratToString_days kv_set_def kv_getByPrefix_def)
qed

lemma demo_years:
  "YearFromTime 1793785920000 = 2026" "YearFromTime 1793958720000 = 2026"
  "YearFromTime 1794304320000 = 2026" "YearFromTime demo_third_day = 2026"
  by (simp_all add: demo_third_day_def YearFromTime_def YearFromDay_def DayFromYear_def Day_def
      msPerDay_def Let_def)

lemma demo_days:
  "Day 1793785920000 = 20761" "Day 1793958720000 = 20763"
  "Day 1794304320000 = 20767" "Day demo_third_day = 20763"
  by (simp_all add: demo_third_day_def Day_def msPerDay_def)

lemma demo_times:
  "toISOString 1793958720000 = ''2026-11-06T09:52:00.000Z''"
  "toISOString demo_third_day = ''2026-11-06T00:00:01.000Z''"
  by (simp add: date_eval, simp add: demo_third_day_def date_eval)

text \<open>
  C3. For a list of revisions whose \<open>scheduled_date\<close> properties are the ISO strings of
  dates with four-digit years (the years 0 to 9999), and a clock reading \<open>now\<close> in such a
  year, the filter of \<^verbatim>\<open>GET /revisions\<close> returns exactly the revisions whose scheduled
  day is not after the day of \<open>now\<close> (UTC days: the time within the day plays no part)
  and whose \<open>completed\<close> is not truthy, in the order of the input. A revision with
  \<open>completed = true\<close> is not returned, whatever its date; when every \<open>completed\<close> is a
  boolean the second condition is \<open>completed = false\<close>; and the handler answers with
  that list for the revisions stored under the user's prefix.
\<close>

theorem getDueRevisions_due:
  assumes rs: "\<forall>r \<in> set allRevisions.
      getProp r ''scheduled_date'' = JStr (toISOString (scheduled r))
      \<and> 0 \<le> YearFromTime (scheduled r) \<and> YearFromTime (scheduled r) \<le> 9999"
    and now: "0 \<le> YearFromTime now" "YearFromTime now \<le> 9999"
  shows "getDueRevisions allRevisions now
      = Some (filter (\<lambda>r. Day (scheduled r) \<le> Day now \<and> \<not> truthy (getProp r ''completed''))
                allRevisions)
   \<and> (\<forall>due. getDueRevisions allRevisions now = Some due
         \<longrightarrow> (\<forall>r \<in> set due. getProp r ''completed'' \<noteq> JBool True))
   \<and> ((\<forall>r \<in> set allRevisions. \<exists>b. getProp r ''completed'' = JBool b)
         \<longrightarrow> getDueRevisions allRevisions now
             = Some (filter (\<lambda>r. Day (scheduled r) \<le> Day now
                               \<and> getProp r ''completed'' = JBool False) allRevisions))
   \<and> (authenticate getUser (authorization req) = Some uid
        \<and> allRevisions = kv_getByPrefix st (''revision:'' @ uid)
         \<longrightarrow> revisions_get getUser st req now
             = Inr [(''revisions'',
                     JArr (map JObj (filter (\<lambda>r. Day (scheduled r) \<le> Day now
                                              \<and> \<not> truthy (getProp r ''completed''))
                                       allRevisions)))])"
proof -
  note due = getDueRevisions_filter[OF rs now]
  have a: "\<forall>due. getDueRevisions allRevisions now = Some due
         \<longrightarrow> (\<forall>r \<in> set due. getProp r ''completed'' \<noteq> JBool True)"
    unfolding due by auto
  have b: "(\<forall>r \<in> set allRevisions. \<exists>b. getProp r ''completed'' = JBool b)
         \<longrightarrow> getDueRevisions allRevisions now
             = Some (filter (\<lambda>r. Day (scheduled r) \<le> Day now
                               \<and> getProp r ''completed'' = JBool False) allRevisions)"
  proof
    assume bool: "\<forall>r \<in> set allRevisions. \<exists>b. getProp r ''completed'' = JBool b"
    have "filter (\<lambda>r. Day (scheduled r) \<le> Day now \<and> \<not> truthy (getProp r ''completed''))
            allRevisions
        = filter (\<lambda>r. Day (scheduled r) \<le> Day now \<and> getProp r ''completed'' = JBool False)
            allRevisions"
      using bool by (intro filter_cong refl) auto
    then show "getDueRevisions allRevisions now
             = Some (filter (\<lambda>r. Day (scheduled r) \<le> Day now
                               \<and> getProp r ''completed'' = JBool False) allRevisions)"
      unfolding due by simp
  qed
  have c: "authenticate getUser (authorization req) = Some uid
        \<and> allRevisions = kv_getByPrefix st (''revision:'' @ uid)
         \<longrightarrow> revisions_get getUser st req now
             = Inr [(''revisions'',
                     JArr (map JObj (filter (\<lambda>r. Day (scheduled r) \<le> Day now
                                              \<and> \<not> truthy (getProp r ''completed''))
                                       allRevisions)))]"
    using due by (auto simp: revisions_get_def)
  from due a b c show ?thesis by blast
qed

theorem getDueRevisions_due_witness:
  "kv_getByPrefix demo_done1 ''revision:u1'' =
     [completedRevision (newRevision ''u1'' demo_diagnostic 1 1793785920000) (num 6) 1793790000000,
      newRevision ''u1'' demo_diagnostic 3 1793958720000,
      newRevision ''u1'' demo_diagnostic 7 1794304320000]
   \<and> toISOString 1793958720000 = ''2026-11-06T09:52:00.000Z''
   \<and> toISOString demo_third_day = ''2026-11-06T00:00:01.000Z''
   \<and> getDueRevisions (kv_getByPrefix demo_done1 ''revision:u1'') demo_third_day
       = Some [newRevision ''u1'' demo_diagnostic 3 1793958720000]
   \<and> revisions_get demo_getUser demo_done1 demo_get demo_third_day
       = Inr [(''revisions'', JArr [JObj (newRevision ''u1'' demo_diagnostic 3 1793958720000)])]"
proof -
  let ?rs = "kv_getByPrefix demo_done1 ''revision:u1''"
  have rs: "\<forall>r \<in> set ?rs.
      getProp r ''scheduled_date'' = JStr (toISOString (demo_scheduledDate r))
      \<and> 0 \<le> YearFromTime (demo_scheduledDate r) \<and> YearFromTime (demo_scheduledDate r) \<le> 9999"
    unfolding demo_done1_revisions
    by (simp add: demo_scheduledDate_def getProp_completedRevision getProp_newRevision demo_years)
  have now: "0 \<le> YearFromTime demo_third_day" "YearFromTime demo_third_day \<le> 9999"
    by (simp_all add: demo_years)
  have f: "filter (\<lambda>r. Day (demo_scheduledDate r) \<le> Day demo_third_day
                     \<and> \<not> truthy (getProp r ''completed'')) ?rs
           = [newRevision ''u1'' demo_diagnostic 3 1793958720000]"
    unfolding demo_done1_revisions
    by (simp add: demo_scheduledDate_def getProp_completedRevision getProp_newRevision demo_days)
  note inst = getDueRevisions_due[OF rs now, where getUser = demo_getUser and req = demo_get
      and uid = "''u1''" and st = demo_done1]
  have due: "getDueRevisions ?rs demo_third_day
       = Some [newRevision ''u1'' demo_diagnostic 3 1793958720000]"
    using inst unfolding f by blast
  have "authenticate demo_getUser (authorization demo_get) = Some ''u1''
        \<and> ?rs = kv_getByPrefix demo_done1 (''revision:'' @ ''u1'')"
    by (simp add: demo_get_auth)
  with inst have "revisions_get demo_getUser demo_done1 demo_get demo_third_day
       = Inr [(''revisions'', JArr (map JObj [newRevision ''u1'' demo_diagnostic 3 1793958720000]))]"
    unfolding f by blast
  with due demo_done1_revisions demo_times show ?thesis by simp
qed

end
